theory Spec2Isabelle
  imports Main "HOL-Library.Word"
begin

section \<open>The APIcast logic reconciler\<close>

text \<open>
  A shallow embedding of \<^verbatim>\<open>pkg/controller/apicast/apicast_logic_reconciler.go\<close>.
  Every method of \<^verbatim>\<open>APIcastLogicReconciler\<close> becomes a function that takes the
  in-memory custom resource and the state of the object store and returns its Go results
  together with the new state. A Go \<^verbatim>\<open>error\<close> return is a value of \<open>error\<close>, a
  run-time panic a value of \<open>panic\<close>.
\<close>

subsection \<open>Errors\<close>

text \<open>
  \<open>ReferenceIncomplete\<close>, \<open>KeyMissing\<close> and \<open>CredentialMissing\<close> stand for the three
  \<^verbatim>\<open>fmt.Errorf\<close> values of the secret getters (their argument is what the message
  interpolates); \<open>NotFound\<close>, \<open>AlreadyExists\<close>, \<open>Conflict\<close> and \<open>StoreFailure\<close> are what
  the client may answer; \<open>LibraryError\<close> is an error of \<^verbatim>\<open>url.Parse\<close> or of
  \<^verbatim>\<open>controllerutil.SetControllerReference\<close>.
\<close>

datatype error =
    NotFound
  | AlreadyExists
  | Conflict
  | StoreFailure string
  | ReferenceIncomplete string
  | KeyMissing string string
  | CredentialMissing string
  | LibraryError string

datatype panic = NilPointerDereference | IndexOutOfRange

datatype failure = Err error | Panic panic

text \<open>\<^verbatim>\<open>errors.IsNotFound\<close>\<close>

definition IsNotFound :: "error \<Rightarrow> bool" where
  "IsNotFound e = (e = NotFound)"

subsection \<open>Objects\<close>

text \<open>\<^verbatim>\<open>types.NamespacedName\<close>, as the pair (Namespace, Name).\<close>

type_synonym key = "string \<times> string"

type_synonym addr = nat

record OwnerReference =
  or_APIVersion :: string
  or_Kind :: string
  or_Name :: string
  or_UID :: string
  or_Controller :: "bool option"

record IngressTLS =
  tls_Hosts :: "string list"
  tls_SecretName :: string

text \<open>\<^verbatim>\<open>appsv1alpha1.APIcastExposedHost\<close>\<close>

record APIcastExposedHost =
  eh_Host :: string
  eh_TLS :: "IngressTLS list"

text \<open>
  \<^verbatim>\<open>appsv1alpha1.APIcastSpec\<close>, with the fields that the generated deep copy lists.
  A pointer field is an \<open>option\<close> (\<open>None\<close> is nil); a \<^verbatim>\<open>*v1.LocalObjectReference\<close> is
  the option of its \<^verbatim>\<open>Name\<close>.
\<close>

record APIcastSpec =
  spec_Replicas :: "64 word option"
  spec_AdminPortalCredentialsRef :: "string option"
  spec_EmbeddedConfigurationSecretRef :: "string option"
  spec_ServiceAccount :: "string option"
  spec_Image :: "string option"
  spec_ExposedHost :: "APIcastExposedHost option"
  spec_DeploymentEnvironment :: "string option"
  spec_DNSResolverAddress :: "string option"
  spec_EnabledServices :: "string list"
  spec_ConfigurationLoadMode :: "64 word option"
  spec_LogLevel :: "string option"
  spec_PathRoutingEnabled :: "bool option"
  spec_ResponseCodesIncluded :: "bool option"
  spec_CacheConfigurationSeconds :: "64 word option"
  spec_ManagementAPIScope :: "string option"
  spec_OpenSSLPeerVerificationEnabled :: "bool option"

text \<open>\<^verbatim>\<open>appsv1alpha1.APIcast\<close>, the custom resource.\<close>

record APIcastCR =
  cr_Name :: string
  cr_Namespace :: string
  cr_UID :: string
  cr_Spec :: APIcastSpec

text \<open>\<^verbatim>\<open>v1.Secret\<close>; \<open>sec_Data\<close> is the payload as a map from key to value.\<close>

record Secret =
  sec_Name :: string
  sec_Namespace :: string
  sec_ResourceVersion :: string
  sec_OwnerReferences :: "OwnerReference list"
  sec_Data :: "string \<rightharpoonup> string"

record EnvVar =
  ev_Name :: string
  ev_Value :: string

record Volume =
  vol_Name :: string
  vol_SecretName :: string

record VolumeMount =
  vm_Name :: string
  vm_MountPath :: string

record Container =
  c_Name :: string
  c_Image :: string
  c_Env :: "EnvVar list"
  c_VolumeMounts :: "VolumeMount list"

text \<open>
  \<^verbatim>\<open>appsv1.Deployment\<close>. \<^verbatim>\<open>Spec.Replicas\<close> is a \<^verbatim>\<open>*int32\<close>: in memory
  (\<open>addr Deployment\<close>) the field is the address of an \<^verbatim>\<open>int32\<close> cell or nil, in the
  store (\<open>32 word Deployment\<close>) it is the number itself or absent. The maps and slices
  are compared by \<^verbatim>\<open>reflect.DeepEqual\<close> in the source, which is \<open>=\<close> here; the
  difference that \<^verbatim>\<open>DeepEqual\<close> makes between a nil and an empty map or slice is not
  represented.
\<close>

record 'r Deployment =
  dep_Name :: string
  dep_Namespace :: string
  dep_Labels :: "string \<rightharpoonup> string"
  dep_OwnerReferences :: "OwnerReference list"
  dep_Replicas :: "'r option"
  dep_Annotations :: "string \<rightharpoonup> string"
  dep_ServiceAccountName :: string
  dep_Containers :: "Container list"
  dep_Volumes :: "Volume list"

record Service =
  svc_Name :: string
  svc_Namespace :: string
  svc_OwnerReferences :: "OwnerReference list"
  svc_Selector :: "string \<rightharpoonup> string"
  svc_Ports :: "(string \<times> 32 word) list"

record IngressRule =
  ir_Host :: string
  ir_ServiceName :: string
  ir_ServicePort :: string

record Ingress =
  ing_Name :: string
  ing_Namespace :: string
  ing_OwnerReferences :: "OwnerReference list"
  ing_Rules :: "IngressRule list"
  ing_TLS :: "IngressTLS list"

subsection \<open>The object store and the client\<close>

text \<open>
  The client of the \<^verbatim>\<open>BaseReconciler\<close>: \<^verbatim>\<open>Get\<close>, \<^verbatim>\<open>Create\<close> and \<^verbatim>\<open>Update\<close> on
  typed objects. The state holds the stored objects by kind and namespaced name, the
  calls issued so far, and \<open>faults\<close>, which decides for the n-th call whether the store
  answers with an error of its own (a lost connection, a conflict, a stale cache) instead
  of serving it. \<open>heap\<close> and \<open>next_addr\<close> are the \<^verbatim>\<open>int32\<close> cells of the process: the
  next allocation takes the address \<open>next_addr\<close>.
\<close>

datatype kind = KAPIcast | KSecret | KDeployment | KService | KIngress

datatype call = Get kind key | Create kind key | Update kind key

record World =
  apicasts :: "key \<rightharpoonup> APIcastCR"
  secrets :: "key \<rightharpoonup> Secret"
  deployments :: "key \<rightharpoonup> 32 word Deployment"
  services :: "key \<rightharpoonup> Service"
  ingresses :: "key \<rightharpoonup> Ingress"
  calls :: "call list"
  faults :: "nat \<Rightarrow> error option"
  heap :: "addr \<Rightarrow> 32 word"
  next_addr :: addr

definition record_call :: "call \<Rightarrow> World \<Rightarrow> error option \<times> World" where
  "record_call c w = (faults w (length (calls w)), w\<lparr>calls := calls w @ [c]\<rparr>)"

definition store_get :: "(key \<rightharpoonup> 'a) \<Rightarrow> key \<Rightarrow> error + 'a" where
  "store_get m k = (case m k of None \<Rightarrow> Inl NotFound | Some v \<Rightarrow> Inr v)"

definition store_create :: "(key \<rightharpoonup> 'a) \<Rightarrow> key \<Rightarrow> 'a \<Rightarrow> error + (key \<rightharpoonup> 'a)" where
  "store_create m k v = (case m k of None \<Rightarrow> Inr (m(k \<mapsto> v)) | Some _ \<Rightarrow> Inl AlreadyExists)"

definition store_update :: "(key \<rightharpoonup> 'a) \<Rightarrow> key \<Rightarrow> 'a \<Rightarrow> error + (key \<rightharpoonup> 'a)" where
  "store_update m k v = (case m k of None \<Rightarrow> Inl NotFound | Some _ \<Rightarrow> Inr (m(k \<mapsto> v)))"

text \<open>Services.\<close>

definition Get_Service :: "key \<Rightarrow> World \<Rightarrow> (error + Service) \<times> World" where
  "Get_Service k w =
     (case record_call (Get KService k) w of
        (Some e, w1) \<Rightarrow> (Inl e, w1)
      | (None, w1) \<Rightarrow> (store_get (services w1) k, w1))"

definition Create_Service :: "Service \<Rightarrow> World \<Rightarrow> error option \<times> World" where
  "Create_Service s w =
     (let k = (svc_Namespace s, svc_Name s) in
      case record_call (Create KService k) w of
        (Some e, w1) \<Rightarrow> (Some e, w1)
      | (None, w1) \<Rightarrow>
          (case store_create (services w1) k s of
             Inl e \<Rightarrow> (Some e, w1)
           | Inr m \<Rightarrow> (None, w1\<lparr>services := m\<rparr>)))"

subsection \<open>The service driver\<close>

text \<open>
  \<^verbatim>\<open>reconcileService\<close>: get the service under the desired one's namespaced name; create
  the desired one when the get answers not-found; return the get's error otherwise, nil
  when the service is there.
\<close>

definition reconcileService :: "Service \<Rightarrow> World \<Rightarrow> failure option \<times> World" where
  "reconcileService desiredService w =
     (case Get_Service (svc_Namespace desiredService, svc_Name desiredService) w of
        (Inl err, w1) \<Rightarrow>
          if IsNotFound err then
            (case Create_Service desiredService w1 of
               (err', w2) \<Rightarrow> (map_option Err err', w2))
          else (Some (Err err), w1)
      | (Inr existingService, w1) \<Rightarrow> (None, w1))"

text \<open>The custom resource, secrets, deployments and ingresses, in the same way.\<close>

definition Update_APIcast :: "APIcastCR \<Rightarrow> World \<Rightarrow> error option \<times> World" where
  "Update_APIcast cr w =
     (let k = (cr_Namespace cr, cr_Name cr) in
      case record_call (Update KAPIcast k) w of
        (Some e, w1) \<Rightarrow> (Some e, w1)
      | (None, w1) \<Rightarrow>
          (case store_update (apicasts w1) k cr of
             Inl e \<Rightarrow> (Some e, w1)
           | Inr m \<Rightarrow> (None, w1\<lparr>apicasts := m\<rparr>)))"

definition Get_Secret :: "key \<Rightarrow> World \<Rightarrow> (error + Secret) \<times> World" where
  "Get_Secret k w =
     (case record_call (Get KSecret k) w of
        (Some e, w1) \<Rightarrow> (Inl e, w1)
      | (None, w1) \<Rightarrow> (store_get (secrets w1) k, w1))"

definition Update_Secret :: "Secret \<Rightarrow> World \<Rightarrow> error option \<times> World" where
  "Update_Secret s w =
     (let k = (sec_Namespace s, sec_Name s) in
      case record_call (Update KSecret k) w of
        (Some e, w1) \<Rightarrow> (Some e, w1)
      | (None, w1) \<Rightarrow>
          (case store_update (secrets w1) k s of
             Inl e \<Rightarrow> (Some e, w1)
           | Inr m \<Rightarrow> (None, w1\<lparr>secrets := m\<rparr>)))"

text \<open>
  A deployment crosses between the store and the memory of the process. Reading one
  (\<open>load_Deployment\<close>) allocates a new \<^verbatim>\<open>int32\<close> cell for a replica count that is
  present, as decoding into the empty \<^verbatim>\<open>appsv1.Deployment{}\<close> of the caller does;
  writing one (\<open>wire_Deployment\<close>) reads the cell.
\<close>

definition with_Replicas :: "'q option \<Rightarrow> 'p Deployment \<Rightarrow> 'q Deployment" where
  "with_Replicas r d =
     \<lparr>dep_Name = dep_Name d, dep_Namespace = dep_Namespace d, dep_Labels = dep_Labels d,
      dep_OwnerReferences = dep_OwnerReferences d, dep_Replicas = r,
      dep_Annotations = dep_Annotations d,
      dep_ServiceAccountName = dep_ServiceAccountName d,
      dep_Containers = dep_Containers d, dep_Volumes = dep_Volumes d\<rparr>"

definition new_int32 :: "32 word \<Rightarrow> World \<Rightarrow> addr \<times> World" where
  "new_int32 v w =
     (next_addr w, w\<lparr>heap := (heap w)(next_addr w := v), next_addr := Suc (next_addr w)\<rparr>)"

definition load_Deployment :: "32 word Deployment \<Rightarrow> World \<Rightarrow> addr Deployment \<times> World" where
  "load_Deployment d w =
     (case dep_Replicas d of
        None \<Rightarrow> (with_Replicas None d, w)
      | Some v \<Rightarrow> (case new_int32 v w of (a, w1) \<Rightarrow> (with_Replicas (Some a) d, w1)))"

definition wire_Deployment :: "World \<Rightarrow> addr Deployment \<Rightarrow> 32 word Deployment" where
  "wire_Deployment w d = with_Replicas (map_option (heap w) (dep_Replicas d)) d"

definition Get_Deployment :: "key \<Rightarrow> World \<Rightarrow> (error + addr Deployment) \<times> World" where
  "Get_Deployment k w =
     (case record_call (Get KDeployment k) w of
        (Some e, w1) \<Rightarrow> (Inl e, w1)
      | (None, w1) \<Rightarrow>
          (case store_get (deployments w1) k of
             Inl e \<Rightarrow> (Inl e, w1)
           | Inr d \<Rightarrow> (case load_Deployment d w1 of (d', w2) \<Rightarrow> (Inr d', w2))))"

definition Create_Deployment :: "addr Deployment \<Rightarrow> World \<Rightarrow> error option \<times> World" where
  "Create_Deployment d w =
     (let k = (dep_Namespace d, dep_Name d) in
      case record_call (Create KDeployment k) w of
        (Some e, w1) \<Rightarrow> (Some e, w1)
      | (None, w1) \<Rightarrow>
          (case store_create (deployments w1) k (wire_Deployment w1 d) of
             Inl e \<Rightarrow> (Some e, w1)
           | Inr m \<Rightarrow> (None, w1\<lparr>deployments := m\<rparr>)))"

definition Update_Deployment :: "addr Deployment \<Rightarrow> World \<Rightarrow> error option \<times> World" where
  "Update_Deployment d w =
     (let k = (dep_Namespace d, dep_Name d) in
      case record_call (Update KDeployment k) w of
        (Some e, w1) \<Rightarrow> (Some e, w1)
      | (None, w1) \<Rightarrow>
          (case store_update (deployments w1) k (wire_Deployment w1 d) of
             Inl e \<Rightarrow> (Some e, w1)
           | Inr m \<Rightarrow> (None, w1\<lparr>deployments := m\<rparr>)))"

definition Get_Ingress :: "key \<Rightarrow> World \<Rightarrow> (error + Ingress) \<times> World" where
  "Get_Ingress k w =
     (case record_call (Get KIngress k) w of
        (Some e, w1) \<Rightarrow> (Inl e, w1)
      | (None, w1) \<Rightarrow> (store_get (ingresses w1) k, w1))"

definition Create_Ingress :: "Ingress \<Rightarrow> World \<Rightarrow> error option \<times> World" where
  "Create_Ingress i w =
     (let k = (ing_Namespace i, ing_Name i) in
      case record_call (Create KIngress k) w of
        (Some e, w1) \<Rightarrow> (Some e, w1)
      | (None, w1) \<Rightarrow>
          (case store_create (ingresses w1) k i of
             Inl e \<Rightarrow> (Some e, w1)
           | Inr m \<Rightarrow> (None, w1\<lparr>ingresses := m\<rparr>)))"

definition Update_Ingress :: "Ingress \<Rightarrow> World \<Rightarrow> error option \<times> World" where
  "Update_Ingress i w =
     (let k = (ing_Namespace i, ing_Name i) in
      case record_call (Update KIngress k) w of
        (Some e, w1) \<Rightarrow> (Some e, w1)
      | (None, w1) \<Rightarrow>
          (case store_update (ingresses w1) k i of
             Inl e \<Rightarrow> (Some e, w1)
           | Inr m \<Rightarrow> (None, w1\<lparr>ingresses := m\<rparr>)))"

subsection \<open>What the reconciler imports\<close>

text \<open>\<^verbatim>\<open>apicast.ExposedHost\<close> and \<^verbatim>\<open>apicast.APIcast\<close>, as \<^verbatim>\<open>internalAPIcast\<close> fills them.\<close>

record ExposedHost =
  xh_Host :: string
  xh_TLS :: "IngressTLS list"

record APIcast =
  DeploymentName :: string
  ServiceName :: string
  Replicas :: "32 word"
  AppLabel :: string
  AdditionalAnnotations :: "string \<rightharpoonup> string"
  ServiceAccountName :: string
  Image :: string
  ExposedHost :: ExposedHost
  Namespace :: string
  OwnerReference :: "OwnerReference option"
  AdminPortalCredentialsSecretName :: "string option"
  DeploymentEnvironment :: "string option"
  DNSResolverAddress :: "string option"
  EnabledServices :: "string list"
  ConfigurationLoadMode :: "64 word option"
  LogLevel :: "string option"
  PathRoutingEnabled :: "bool option"
  ResponseCodesIncluded :: "bool option"
  CacheConfigurationSeconds :: "64 word option"
  ManagementAPIScope :: "string option"
  OpenSSLPeerVerificationEnabled :: "bool option"
  GatewayConfigurationSecretName :: "string option"

text \<open>
  The constants and functions that the reconciler takes from packages whose sources are
  not at hand, as parameters: the two key names and the default image of package
  \<^verbatim>\<open>apicast\<close>, the group version and kind of the custom resource, the three object
  builders of \<^verbatim>\<open>apicast.APIcast\<close> (a deployment is given as the store would hold it;
  \<open>load_Deployment\<close> puts it in memory), \<^verbatim>\<open>url.Parse\<close> followed by
  \<^verbatim>\<open>User.Username()\<close>, and \<^verbatim>\<open>controllerutil.SetControllerReference\<close> as a function
  from the owner and the owner references of the object to its new owner references.
\<close>

record Imported =
  AdminPortalURLAttributeName :: string
  EmbeddedConfigurationSecretKey :: string
  GetDefaultImageVersion :: string
  SchemeGroupVersion_String :: string
  APIcastKind :: string
  apicast_Deployment :: "APIcast \<Rightarrow> 32 word Deployment"
  apicast_Service :: "APIcast \<Rightarrow> Service"
  apicast_Ingress :: "APIcast \<Rightarrow> Ingress"
  url_Parse_Username :: "string \<Rightarrow> error + string"
  SetControllerReference :: "APIcastCR \<Rightarrow> OwnerReference list \<Rightarrow> error + OwnerReference list"

text \<open>
  Modelled from the spec: \<^verbatim>\<open>k8sutils.SecretStringDataFromData\<close> is not among the
  sources. The resolver of the spec looks the required key up in the payload of the
  secret, so this is the payload, read as strings.
\<close>

definition SecretStringDataFromData :: "Secret \<Rightarrow> (string \<rightharpoonup> string)" where
  "SecretStringDataFromData secret = sec_Data secret"

subsection \<open>Secrets\<close>

definition AdmPortalSecretResverAnnotation :: string where
  "AdmPortalSecretResverAnnotation =
     ''apicast.apps.3scale.net/admin-portal-secret-resource-version''"

definition GatewayConfigurationSecretResverAnnotation :: string where
  "GatewayConfigurationSecretResverAnnotation =
     ''apicast.apps.3scale.net/gateway-configuration-secret-resource-version''"

record apicastUserProvidedSecrets =
  adminPortalCredentialsSecret :: "Secret option"
  gatewayEmbeddedConfigSecret :: "Secret option"

text \<open>
  \<^verbatim>\<open>getAdminPortalCredentialsSecret\<close>. The reference is read through its pointer with
  no nil check (the callers check), then: empty name, get, required key, URL, access
  token.
\<close>

definition getAdminPortalCredentialsSecret ::
  "Imported \<Rightarrow> APIcastCR \<Rightarrow> World \<Rightarrow> (failure + Secret) \<times> World" where
  "getAdminPortalCredentialsSecret D cr w =
     (case spec_AdminPortalCredentialsRef (cr_Spec cr) of
        None \<Rightarrow> (Inl (Panic NilPointerDereference), w)
      | Some name \<Rightarrow>
          if name = [] then (Inl (Err (ReferenceIncomplete ''AdminPortalCredentialsRef'')), w)
          else
            (case Get_Secret (cr_Namespace cr, name) w of
               (Inl err, w1) \<Rightarrow> (Inl (Err err), w1)
             | (Inr secret, w1) \<Rightarrow>
                 (case SecretStringDataFromData secret (AdminPortalURLAttributeName D) of
                    None \<Rightarrow>
                      (Inl (Err (KeyMissing (AdminPortalURLAttributeName D) (sec_Name secret))), w1)
                  | Some adminPortalURL \<Rightarrow>
                      (case url_Parse_Username D adminPortalURL of
                         Inl err \<Rightarrow> (Inl (Err err), w1)
                       | Inr accessToken \<Rightarrow>
                           if accessToken = []
                           then (Inl (Err (CredentialMissing (AdminPortalURLAttributeName D))), w1)
                           else (Inr secret, w1)))))"

text \<open>\<^verbatim>\<open>getGatewayEmbeddedConfigSecret\<close>\<close>

definition getGatewayEmbeddedConfigSecret ::
  "Imported \<Rightarrow> APIcastCR \<Rightarrow> World \<Rightarrow> (failure + Secret) \<times> World" where
  "getGatewayEmbeddedConfigSecret D cr w =
     (case spec_EmbeddedConfigurationSecretRef (cr_Spec cr) of
        None \<Rightarrow> (Inl (Panic NilPointerDereference), w)
      | Some name \<Rightarrow>
          if name = []
          then (Inl (Err (ReferenceIncomplete ''EmbeddedConfigurationSecretRef'')), w)
          else
            (case Get_Secret (cr_Namespace cr, name) w of
               (Inl err, w1) \<Rightarrow> (Inl (Err err), w1)
             | (Inr secret, w1) \<Rightarrow>
                 (case SecretStringDataFromData secret (EmbeddedConfigurationSecretKey D) of
                    None \<Rightarrow>
                      (Inl (Err (KeyMissing (EmbeddedConfigurationSecretKey D) (sec_Name secret))),
                       w1)
                  | Some _ \<Rightarrow> (Inr secret, w1))))"

text \<open>
  \<^verbatim>\<open>setOwnerReference\<close> and \<^verbatim>\<open>ensureOwnerReference\<close> on a secret (a
  \<^verbatim>\<open>runtime.Object\<close>, so the type assertion holds): the object is changed in place,
  and "changed" is a change of the number of its owner references.
\<close>

definition setOwnerReference :: "Imported \<Rightarrow> APIcastCR \<Rightarrow> Secret \<Rightarrow> error option \<times> Secret" where
  "setOwnerReference D cr obj =
     (case SetControllerReference D cr (sec_OwnerReferences obj) of
        Inl err \<Rightarrow> (Some err, obj)
      | Inr refs \<Rightarrow> (None, obj\<lparr>sec_OwnerReferences := refs\<rparr>))"

definition ensureOwnerReference ::
  "Imported \<Rightarrow> APIcastCR \<Rightarrow> Secret \<Rightarrow> (bool \<times> error option) \<times> Secret" where
  "ensureOwnerReference D cr obj =
     (let originalSize = length (sec_OwnerReferences obj) in
      case setOwnerReference D cr obj of
        (Some err, obj1) \<Rightarrow> ((False, Some err), obj1)
      | (None, obj1) \<Rightarrow>
          (let newSize = length (sec_OwnerReferences obj1)
           in ((originalSize \<noteq> newSize, None), obj1)))"

text \<open>
  \<^verbatim>\<open>reconcileAdminPortalCredentials\<close> and \<^verbatim>\<open>reconcileGatewayEmbbededConfig\<close> return
  the secret, the flag "changed" and the error, as in Go.
\<close>

definition reconcileAdminPortalCredentials ::
  "Imported \<Rightarrow> APIcastCR \<Rightarrow> World \<Rightarrow> (Secret option \<times> bool \<times> failure option) \<times> World" where
  "reconcileAdminPortalCredentials D cr w =
     (if spec_AdminPortalCredentialsRef (cr_Spec cr) = None then ((None, False, None), w)
      else
        (case getAdminPortalCredentialsSecret D cr w of
           (Inl err, w1) \<Rightarrow> ((None, False, Some err), w1)
         | (Inr secret, w1) \<Rightarrow>
             (case ensureOwnerReference D cr secret of
                ((changed, Some err), secret1) \<Rightarrow> ((None, changed, Some (Err err)), w1)
              | ((changed, None), secret1) \<Rightarrow>
                  if changed then
                    (case Update_Secret secret1 w1 of
                       (Some err, w2) \<Rightarrow> ((None, changed, Some (Err err)), w2)
                     | (None, w2) \<Rightarrow> ((Some secret1, changed, None), w2))
                  else ((Some secret1, changed, None), w1))))"

definition reconcileGatewayEmbbededConfig ::
  "Imported \<Rightarrow> APIcastCR \<Rightarrow> World \<Rightarrow> (Secret option \<times> bool \<times> failure option) \<times> World" where
  "reconcileGatewayEmbbededConfig D cr w =
     (if spec_EmbeddedConfigurationSecretRef (cr_Spec cr) = None then ((None, False, None), w)
      else
        (case getGatewayEmbeddedConfigSecret D cr w of
           (Inl err, w1) \<Rightarrow> ((None, False, Some err), w1)
         | (Inr secret, w1) \<Rightarrow>
             (case ensureOwnerReference D cr secret of
                ((changed, Some err), secret1) \<Rightarrow> ((None, changed, Some (Err err)), w1)
              | ((changed, None), secret1) \<Rightarrow>
                  if changed then
                    (case Update_Secret secret1 w1 of
                       (Some err, w2) \<Rightarrow> ((None, changed, Some (Err err)), w2)
                     | (None, w2) \<Rightarrow> ((Some secret1, changed, None), w2))
                  else ((Some secret1, changed, None), w1))))"

subsection \<open>The desired state\<close>

definition UserProvidedSecretResourceVersionAnnotations ::
  "apicastUserProvidedSecrets \<Rightarrow> (string \<rightharpoonup> string)" where
  "UserProvidedSecretResourceVersionAnnotations userProvidedSecrets =
     (let annotations = Map.empty;
          annotations =
            (case adminPortalCredentialsSecret userProvidedSecrets of
               None \<Rightarrow> annotations
             | Some secret \<Rightarrow>
                 annotations(AdmPortalSecretResverAnnotation \<mapsto> sec_ResourceVersion secret));
          annotations =
            (case gatewayEmbeddedConfigSecret userProvidedSecrets of
               None \<Rightarrow> annotations
             | Some secret \<Rightarrow>
                 annotations(GatewayConfigurationSecretResverAnnotation \<mapsto>
                   sec_ResourceVersion secret))
      in annotations)"

text \<open>\<^verbatim>\<open>asOwner\<close>\<close>

definition asOwner :: "Imported \<Rightarrow> APIcastCR \<Rightarrow> OwnerReference" where
  "asOwner D a =
     \<lparr>or_APIVersion = SchemeGroupVersion_String D, or_Kind = APIcastKind D,
      or_Name = cr_Name a, or_UID = cr_UID a, or_Controller = Some True\<rparr>"

text \<open>
  \<^verbatim>\<open>internalAPIcast\<close>. It is a method of the reconciler, so it is given the state of the
  client like every other method, and returns it. The struct literal reads
  \<^verbatim>\<open>*r.APIcastCR.Spec.Replicas\<close> with no nil check, and converts the \<^verbatim>\<open>int64\<close> to
  \<^verbatim>\<open>int32\<close>, which keeps the low 32 bits. The error result of the source is always nil.
\<close>

definition internalAPIcast ::
  "Imported \<Rightarrow> APIcastCR \<Rightarrow> apicastUserProvidedSecrets \<Rightarrow> World \<Rightarrow> (failure + APIcast) \<times> World"
  where
  "internalAPIcast D cr userProvidedSecrets w =
     (let apicastFullName = ''apicast-'' @ cr_Name cr;
          apicastExposedHost =
            (case spec_ExposedHost (cr_Spec cr) of
               None \<Rightarrow> \<lparr>xh_Host = [], xh_TLS = []\<rparr>
             | Some h \<Rightarrow> \<lparr>xh_Host = eh_Host h, xh_TLS = eh_TLS h\<rparr>);
          apicastOwnerRef = asOwner D cr;
          deploymentEnvironment = spec_DeploymentEnvironment (cr_Spec cr);
          deploymentAnnotations =
            UserProvidedSecretResourceVersionAnnotations userProvidedSecrets;
          adminPortalSecretName =
            map_option sec_Name (adminPortalCredentialsSecret userProvidedSecrets);
          gatewayConfigurationSecretName =
            map_option sec_Name (gatewayEmbeddedConfigSecret userProvidedSecrets);
          image =
            (case spec_Image (cr_Spec cr) of
               None \<Rightarrow> GetDefaultImageVersion D
             | Some i \<Rightarrow> i);
          serviceAccount =
            (case spec_ServiceAccount (cr_Spec cr) of
               None \<Rightarrow> ''default''
             | Some sa \<Rightarrow> sa)
      in case spec_Replicas (cr_Spec cr) of
           None \<Rightarrow> (Inl (Panic NilPointerDereference), w)
         | Some replicas \<Rightarrow>
             (Inr \<lparr>DeploymentName = apicastFullName,
                   ServiceName = apicastFullName,
                   Replicas = ucast replicas,
                   AppLabel = ''apicast'',
                   AdditionalAnnotations = deploymentAnnotations,
                   ServiceAccountName = serviceAccount,
                   Image = image,
                   ExposedHost = apicastExposedHost,
                   Namespace = cr_Namespace cr,
                   OwnerReference = Some apicastOwnerRef,
                   AdminPortalCredentialsSecretName = adminPortalSecretName,
                   DeploymentEnvironment = deploymentEnvironment,
                   DNSResolverAddress = spec_DNSResolverAddress (cr_Spec cr),
                   EnabledServices = spec_EnabledServices (cr_Spec cr),
                   ConfigurationLoadMode = spec_ConfigurationLoadMode (cr_Spec cr),
                   LogLevel = spec_LogLevel (cr_Spec cr),
                   PathRoutingEnabled = spec_PathRoutingEnabled (cr_Spec cr),
                   ResponseCodesIncluded = spec_ResponseCodesIncluded (cr_Spec cr),
                   CacheConfigurationSeconds = spec_CacheConfigurationSeconds (cr_Spec cr),
                   ManagementAPIScope = spec_ManagementAPIScope (cr_Spec cr),
                   OpenSSLPeerVerificationEnabled =
                     spec_OpenSSLPeerVerificationEnabled (cr_Spec cr),
                   GatewayConfigurationSecretName = gatewayConfigurationSecretName\<rparr>, w))"

text \<open>
  \<^verbatim>\<open>APIcastFromCRContents\<close>: the two secrets are got, not reconciled, the embedded
  configuration first, and the desired state is built with no initialization before.
\<close>

definition APIcastFromCRContents ::
  "Imported \<Rightarrow> APIcastCR \<Rightarrow> World \<Rightarrow> (failure + APIcast) \<times> World" where
  "APIcastFromCRContents D cr w =
     (case (if spec_EmbeddedConfigurationSecretRef (cr_Spec cr) \<noteq> None
            then (case getGatewayEmbeddedConfigSecret D cr w of
                    (Inl err, w1) \<Rightarrow> (Inl err, w1)
                  | (Inr secret, w1) \<Rightarrow> (Inr (Some secret), w1))
            else (Inr None, w)) of
        (Inl err, w1) \<Rightarrow> (Inl err, w1)
      | (Inr gatewaySecret, w1) \<Rightarrow>
          (case (if spec_AdminPortalCredentialsRef (cr_Spec cr) \<noteq> None
                 then (case getAdminPortalCredentialsSecret D cr w1 of
                         (Inl err, w2) \<Rightarrow> (Inl err, w2)
                       | (Inr secret, w2) \<Rightarrow> (Inr (Some secret), w2))
                 else (Inr None, w1)) of
             (Inl err, w2) \<Rightarrow> (Inl err, w2)
           | (Inr adminSecret, w2) \<Rightarrow>
               internalAPIcast D cr
                 \<lparr>adminPortalCredentialsSecret = adminSecret,
                  gatewayEmbeddedConfigSecret = gatewaySecret\<rparr> w2))"

subsection \<open>Initialization\<close>

definition applyInitialization :: "APIcastCR \<Rightarrow> bool \<times> APIcastCR" where
  "applyInitialization cr =
     (let defaultAPIcastReplicas = (1 :: 64 word) in
      if spec_Replicas (cr_Spec cr) = None
      then (True, cr\<lparr>cr_Spec := (cr_Spec cr)\<lparr>spec_Replicas := Some defaultAPIcastReplicas\<rparr>\<rparr>)
      else (False, cr))"

text \<open>
  \<^verbatim>\<open>initialize\<close> returns the flag and the error, with the custom resource as
  \<^verbatim>\<open>applyInitialization\<close> left it in memory.
\<close>

definition initialize :: "APIcastCR \<Rightarrow> World \<Rightarrow> (bool \<times> failure option) \<times> APIcastCR \<times> World" where
  "initialize cr w =
     (case applyInitialization cr of
        (appliedSomeInitialization, cr1) \<Rightarrow>
          if appliedSomeInitialization then
            (case Update_APIcast cr1 w of
               (Some err, w1) \<Rightarrow> ((False, Some (Err err)), cr1, w1)
             | (None, w1) \<Rightarrow> ((True, None), cr1, w1))
          else ((False, None), cr1, w))"

subsection \<open>The deployment driver\<close>

text \<open>
  Modelled from the spec: one step of \<^verbatim>\<open>ReconcileEnvVar\<close>, which is not among the
  sources. The spec's merge is keyed by name and upserts: the desired variable replaces
  the first existing variable of its name when that one differs from it, and is appended
  when the existing list has no variable of its name. The result is the list and whether
  it changed.
\<close>

fun upsertEnvVar :: "EnvVar \<Rightarrow> EnvVar list \<Rightarrow> EnvVar list \<times> bool" where
  "upsertEnvVar d [] = ([d], True)"
| "upsertEnvVar d (e # es) =
     (if ev_Name e = ev_Name d
      then (if e = d then (e # es, False) else (d # es, True))
      else (case upsertEnvVar d es of (es1, c) \<Rightarrow> (e # es1, c)))"

text \<open>
  Modelled from the spec: \<^verbatim>\<open>ReconcileEnvVar\<close> is called by \<^verbatim>\<open>reconcileDeployment\<close>
  and is not among the sources. The spec describes it as a keyed merge: a variable of the
  desired list that is missing from the existing list, or different there, is upserted; a
  variable of the existing list that the desired list does not name is left untouched.
  The result is the existing list after the merge (the source changes it through the
  pointer) and whether anything was upserted.
\<close>

fun ReconcileEnvVar :: "EnvVar list \<Rightarrow> EnvVar list \<Rightarrow> EnvVar list \<times> bool" where
  "ReconcileEnvVar existing [] = (existing, False)"
| "ReconcileEnvVar existing (d # ds) =
     (case upsertEnvVar d existing of
        (existing1, c1) \<Rightarrow>
          (case ReconcileEnvVar existing1 ds of
             (existing2, c2) \<Rightarrow> (existing2, c1 \<or> c2)))"

text \<open>
  Lines 447 to 482 of \<^verbatim>\<open>reconcileDeployment\<close>: the comparisons, field by field, on the
  existing deployment in memory. \<^verbatim>\<open>Containers[0]\<close> panics on an empty slice. The
  replica counts are compared as the source compares them: \<^verbatim>\<open>!=\<close> on two
  \<^verbatim>\<open>*int32\<close>, that is, on the addresses.
\<close>

definition compareDeployment ::
  "addr Deployment \<Rightarrow> addr Deployment \<Rightarrow> panic + (addr Deployment \<times> bool)" where
  "compareDeployment existingDeployment desiredDeployment =
     (let changed = False;
          (existingReplicas, changed) =
            (if dep_Replicas existingDeployment \<noteq> dep_Replicas desiredDeployment
             then (dep_Replicas desiredDeployment, True)
             else (dep_Replicas existingDeployment, changed))
      in case (dep_Containers existingDeployment, dep_Containers desiredDeployment) of
           (existing0 # existingRest, desired0 # desiredRest) \<Rightarrow>
             (let (existingImage, changed) =
                    (if c_Image existing0 \<noteq> c_Image desired0
                     then (c_Image desired0, True)
                     else (c_Image existing0, changed));
                  (existingServiceAccountName, changed) =
                    (if dep_ServiceAccountName existingDeployment
                          \<noteq> dep_ServiceAccountName desiredDeployment
                     then (dep_ServiceAccountName desiredDeployment, True)
                     else (dep_ServiceAccountName existingDeployment, changed));
                  (existingEnv, updatedTmp) = ReconcileEnvVar (c_Env existing0) (c_Env desired0);
                  changed = (changed \<or> updatedTmp);
                  (existingAnnotations, changed) =
                    (if dep_Annotations existingDeployment \<noteq> dep_Annotations desiredDeployment
                     then (dep_Annotations desiredDeployment, True)
                     else (dep_Annotations existingDeployment, changed));
                  (existingVolumes, changed) =
                    (if dep_Volumes existingDeployment \<noteq> dep_Volumes desiredDeployment
                     then (dep_Volumes desiredDeployment, True)
                     else (dep_Volumes existingDeployment, changed));
                  (existingVolumeMounts, changed) =
                    (if c_VolumeMounts existing0 \<noteq> c_VolumeMounts desired0
                     then (c_VolumeMounts desired0, True)
                     else (c_VolumeMounts existing0, changed))
              in Inr (existingDeployment
                        \<lparr>dep_Replicas := existingReplicas,
                         dep_ServiceAccountName := existingServiceAccountName,
                         dep_Annotations := existingAnnotations,
                         dep_Volumes := existingVolumes,
                         dep_Containers :=
                           existing0\<lparr>c_Image := existingImage, c_Env := existingEnv,
                                     c_VolumeMounts := existingVolumeMounts\<rparr> # existingRest\<rparr>,
                      changed))
         | _ \<Rightarrow> Inl IndexOutOfRange)"

text \<open>\<^verbatim>\<open>reconcileDeployment\<close>\<close>

definition reconcileDeployment :: "addr Deployment \<Rightarrow> World \<Rightarrow> failure option \<times> World" where
  "reconcileDeployment desiredDeployment w =
     (case Get_Deployment (dep_Namespace desiredDeployment, dep_Name desiredDeployment) w of
        (Inl err, w1) \<Rightarrow>
          if IsNotFound err then
            (case Create_Deployment desiredDeployment w1 of
               (err', w2) \<Rightarrow> (map_option Err err', w2))
          else (Some (Err err), w1)
      | (Inr existingDeployment, w1) \<Rightarrow>
          (case compareDeployment existingDeployment desiredDeployment of
             Inl p \<Rightarrow> (Some (Panic p), w1)
           | Inr (existingDeployment1, changed) \<Rightarrow>
               if changed then
                 (case Update_Deployment existingDeployment1 w1 of
                    (err', w2) \<Rightarrow> (map_option Err err', w2))
               else (None, w1)))"

subsection \<open>The ingress driver\<close>

text \<open>
  The loop of \<^verbatim>\<open>reconcileIngress\<close> over the existing rules: \<open>idx\<close> is the index of the
  rule at hand, \<open>exposedHostIdx\<close> the index found so far. The body reads
  \<^verbatim>\<open>r.APIcastCR.Spec.ExposedHost.Host\<close> through the pointer, which panics when the
  custom resource has no exposed host (and there is a rule to look at).
\<close>

fun exposedHostIdx_loop ::
  "APIcastExposedHost option \<Rightarrow> IngressRule list \<Rightarrow> int \<Rightarrow> int \<Rightarrow> panic + int" where
  "exposedHostIdx_loop h [] idx exposedHostIdx = Inr exposedHostIdx"
| "exposedHostIdx_loop h (rule # rules) idx exposedHostIdx =
     (case h of
        None \<Rightarrow> Inl NilPointerDereference
      | Some exposedHost \<Rightarrow>
          exposedHostIdx_loop h rules (idx + 1)
            (if ir_Host rule = eh_Host exposedHost then idx else exposedHostIdx))"

text \<open>
  Lines 518 to 535 of \<^verbatim>\<open>reconcileIngress\<close>: the comparisons on the existing ingress
  in memory.
\<close>

definition compareIngress :: "APIcastCR \<Rightarrow> Ingress \<Rightarrow> Ingress \<Rightarrow> panic + (Ingress \<times> bool)" where
  "compareIngress cr existingIngress desiredIngress =
     (case exposedHostIdx_loop (spec_ExposedHost (cr_Spec cr)) (ing_Rules existingIngress)
             0 (- 1) of
        Inl p \<Rightarrow> Inl p
      | Inr exposedHostIdx \<Rightarrow>
          (let update = False;
               (existingIngress, update) =
                 (if exposedHostIdx = - 1
                  then (existingIngress\<lparr>ing_Rules := ing_Rules desiredIngress\<rparr>, True)
                  else (existingIngress, update));
               (existingIngress, update) =
                 (if ing_TLS existingIngress \<noteq> ing_TLS desiredIngress
                  then (existingIngress\<lparr>ing_TLS := ing_TLS desiredIngress\<rparr>, True)
                  else (existingIngress, update))
           in Inr (existingIngress, update)))"

text \<open>\<^verbatim>\<open>reconcileIngress\<close>\<close>

definition reconcileIngress :: "APIcastCR \<Rightarrow> Ingress \<Rightarrow> World \<Rightarrow> failure option \<times> World" where
  "reconcileIngress cr desiredIngress w =
     (case Get_Ingress (ing_Namespace desiredIngress, ing_Name desiredIngress) w of
        (Inl err, w1) \<Rightarrow>
          if IsNotFound err then
            (case Create_Ingress desiredIngress w1 of
               (err', w2) \<Rightarrow> (map_option Err err', w2))
          else (Some (Err err), w1)
      | (Inr existingIngress, w1) \<Rightarrow>
          (case compareIngress cr existingIngress desiredIngress of
             Inl p \<Rightarrow> (Some (Panic p), w1)
           | Inr (existingIngress1, update) \<Rightarrow>
               if update then
                 (case Update_Ingress existingIngress1 w1 of
                    (Some err, w2) \<Rightarrow> (Some (Err err), w2)
                  | (None, w2) \<Rightarrow> (None, w2))
               else (None, w1)))"

subsection \<open>The reconcile pass\<close>

text \<open>\<^verbatim>\<open>reconcile.Result\<close>\<close>

record Result =
  Requeue :: bool

text \<open>
  Lines 86 to 115 of \<^verbatim>\<open>Reconcile\<close>: the desired state is built, then the deployment,
  the service and, when the custom resource has an exposed host, the ingress are
  reconciled. \<^verbatim>\<open>desiredAPIcast.Deployment()\<close> is a new object in memory.
\<close>

definition reconcileObjects ::
  "Imported \<Rightarrow> APIcastCR \<Rightarrow> apicastUserProvidedSecrets \<Rightarrow> World
     \<Rightarrow> (Result \<times> failure option) \<times> World" where
  "reconcileObjects D cr userProvidedSecrets w =
     (case internalAPIcast D cr userProvidedSecrets w of
        (Inl err, w1) \<Rightarrow> ((\<lparr>Requeue = False\<rparr>, Some err), w1)
      | (Inr desiredAPIcast, w1) \<Rightarrow>
          (case load_Deployment (apicast_Deployment D desiredAPIcast) w1 of
             (desiredDeployment, w2) \<Rightarrow>
               (case reconcileDeployment desiredDeployment w2 of
                  (Some err, w3) \<Rightarrow> ((\<lparr>Requeue = False\<rparr>, Some err), w3)
                | (None, w3) \<Rightarrow>
                    (case reconcileService (apicast_Service D desiredAPIcast) w3 of
                       (Some err, w4) \<Rightarrow> ((\<lparr>Requeue = False\<rparr>, Some err), w4)
                     | (None, w4) \<Rightarrow>
                         if spec_ExposedHost (cr_Spec cr) \<noteq> None then
                           (case reconcileIngress cr (apicast_Ingress D desiredAPIcast) w4 of
                              (Some err, w5) \<Rightarrow> ((\<lparr>Requeue = False\<rparr>, Some err), w5)
                            | (None, w5) \<Rightarrow> ((\<lparr>Requeue = False\<rparr>, None), w5))
                         else ((\<lparr>Requeue = False\<rparr>, None), w4)))))"

text \<open>\<^verbatim>\<open>Reconcile\<close>\<close>

definition Reconcile ::
  "Imported \<Rightarrow> APIcastCR \<Rightarrow> World \<Rightarrow> (Result \<times> failure option) \<times> World" where
  "Reconcile D cr w =
     (case initialize cr w of
        ((appliedInitialization, Some err), cr1, w1) \<Rightarrow> ((\<lparr>Requeue = False\<rparr>, Some err), w1)
      | ((appliedInitialization, None), cr1, w1) \<Rightarrow>
          if appliedInitialization then ((\<lparr>Requeue = True\<rparr>, None), w1)
          else
            (case reconcileAdminPortalCredentials D cr1 w1 of
               ((adminSecret, changed, Some err), w2) \<Rightarrow> ((\<lparr>Requeue = False\<rparr>, Some err), w2)
             | ((adminSecret, changed, None), w2) \<Rightarrow>
                 if changed then ((\<lparr>Requeue = True\<rparr>, None), w2)
                 else
                   (case reconcileGatewayEmbbededConfig D cr1 w2 of
                      ((gatewaySecret, changed, Some err), w3) \<Rightarrow>
                        ((\<lparr>Requeue = False\<rparr>, Some err), w3)
                    | ((gatewaySecret, changed, None), w3) \<Rightarrow>
                        if changed then ((\<lparr>Requeue = True\<rparr>, None), w3)
                        else
                          reconcileObjects D cr1
                            \<lparr>adminPortalCredentialsSecret = adminSecret,
                             gatewayEmbeddedConfigSecret = gatewaySecret\<rparr> w3)))"

subsection \<open>Observing a pass\<close>

text \<open>
  The calls that a run from \<open>w\<close> to \<open>w'\<close> issued, and whether the stored objects are the
  same in two states.
\<close>

definition new_calls :: "World \<Rightarrow> World \<Rightarrow> call list" where
  "new_calls w w' = drop (length (calls w)) (calls w')"

definition same_objects :: "World \<Rightarrow> World \<Rightarrow> bool" where
  "same_objects w w' =
     (apicasts w' = apicasts w \<and> secrets w' = secrets w \<and> deployments w' = deployments w
      \<and> services w' = services w \<and> ingresses w' = ingresses w)"

text \<open>
  The comparisons of the deployment driver other than the one on the replica count, for
  two deployments with a first container each: the image, the service account name, the
  merge of the environment, the annotations, the volumes, the volume mounts.
\<close>

definition fields_differ :: "'p Deployment \<Rightarrow> 'q Deployment \<Rightarrow> bool" where
  "fields_differ e d =
     (c_Image (hd (dep_Containers e)) \<noteq> c_Image (hd (dep_Containers d))
      \<or> dep_ServiceAccountName e \<noteq> dep_ServiceAccountName d
      \<or> snd (ReconcileEnvVar (c_Env (hd (dep_Containers e))) (c_Env (hd (dep_Containers d))))
      \<or> dep_Annotations e \<noteq> dep_Annotations d
      \<or> dep_Volumes e \<noteq> dep_Volumes d
      \<or> c_VolumeMounts (hd (dep_Containers e)) \<noteq> c_VolumeMounts (hd (dep_Containers d)))"

subsection \<open>Sample inputs\<close>

text \<open>
  An instance of the imports, to run the functions on concrete inputs: the deployment
  builder copies the replica count, the image, the service account and the annotations of
  the desired state into a deployment of one container; the ingress builder makes one rule
  for the exposed host; every URL has the access token \<open>token\<close>; the owner reference is
  appended unless one with the owner's UID is there.
\<close>

definition exImported :: Imported where
  "exImported =
     \<lparr>AdminPortalURLAttributeName = ''AdminPortalURL'',
      EmbeddedConfigurationSecretKey = ''config.json'',
      GetDefaultImageVersion = ''quay.io/3scale/apicast:nightly'',
      SchemeGroupVersion_String = ''apps.3scale.net/v1alpha1'',
      APIcastKind = ''APIcast'',
      apicast_Deployment =
        (\<lambda>a. \<lparr>dep_Name = DeploymentName a, dep_Namespace = Namespace a,
               dep_Labels = [''app'' \<mapsto> AppLabel a],
               dep_OwnerReferences = (case OwnerReference a of None \<Rightarrow> [] | Some r \<Rightarrow> [r]),
               dep_Replicas = Some (Replicas a),
               dep_Annotations = AdditionalAnnotations a,
               dep_ServiceAccountName = ServiceAccountName a,
               dep_Containers =
                 [\<lparr>c_Name = ''apicast'', c_Image = Image a, c_Env = [], c_VolumeMounts = []\<rparr>],
               dep_Volumes = []\<rparr>),
      apicast_Service =
        (\<lambda>a. \<lparr>svc_Name = ServiceName a, svc_Namespace = Namespace a,
               svc_OwnerReferences = (case OwnerReference a of None \<Rightarrow> [] | Some r \<Rightarrow> [r]),
               svc_Selector = [''app'' \<mapsto> AppLabel a],
               svc_Ports = [(''proxy'', 8080), (''management'', 8090)]\<rparr>),
      apicast_Ingress =
        (\<lambda>a. \<lparr>ing_Name = DeploymentName a, ing_Namespace = Namespace a,
               ing_OwnerReferences = (case OwnerReference a of None \<Rightarrow> [] | Some r \<Rightarrow> [r]),
               ing_Rules =
                 [\<lparr>ir_Host = xh_Host (ExposedHost a), ir_ServiceName = ServiceName a,
                   ir_ServicePort = ''proxy''\<rparr>],
               ing_TLS = xh_TLS (ExposedHost a)\<rparr>),
      url_Parse_Username = (\<lambda>u. Inr ''token''),
      SetControllerReference =
        (\<lambda>owner refs.
           if cr_UID owner \<in> set (map or_UID refs) then Inr refs
           else Inr (refs @ [\<lparr>or_APIVersion = ''apps.3scale.net/v1alpha1'', or_Kind = ''APIcast'',
                              or_Name = cr_Name owner, or_UID = cr_UID owner,
                              or_Controller = Some True\<rparr>]))\<rparr>"

text \<open>A custom resource \<open>ns/example\<close> with one replica and nothing else set.\<close>

definition exSpec :: APIcastSpec where
  "exSpec =
     \<lparr>spec_Replicas = Some 1, spec_AdminPortalCredentialsRef = None,
      spec_EmbeddedConfigurationSecretRef = None, spec_ServiceAccount = None,
      spec_Image = None, spec_ExposedHost = None, spec_DeploymentEnvironment = None,
      spec_DNSResolverAddress = None, spec_EnabledServices = [],
      spec_ConfigurationLoadMode = None, spec_LogLevel = None,
      spec_PathRoutingEnabled = None, spec_ResponseCodesIncluded = None,
      spec_CacheConfigurationSeconds = None, spec_ManagementAPIScope = None,
      spec_OpenSSLPeerVerificationEnabled = None\<rparr>"

definition exCR :: APIcastCR where
  "exCR = \<lparr>cr_Name = ''example'', cr_Namespace = ''ns'', cr_UID = ''uid-1'', cr_Spec = exSpec\<rparr>"

text \<open>A store that holds the custom resource and nothing else, and serves every call.\<close>

definition exWorld :: "APIcastCR \<Rightarrow> World" where
  "exWorld cr =
     \<lparr>apicasts = [(cr_Namespace cr, cr_Name cr) \<mapsto> cr], secrets = Map.empty,
      deployments = Map.empty, services = Map.empty, ingresses = Map.empty, calls = [],
      faults = (\<lambda>n. None), heap = (\<lambda>a. 0), next_addr = 0\<rparr>"

text \<open>A service, a secret, two ingress rules and an ingress for the examples.\<close>

definition exService :: Service where
  "exService =
     \<lparr>svc_Name = ''apicast-example'', svc_Namespace = ''ns'', svc_OwnerReferences = [],
      svc_Selector = [''app'' \<mapsto> ''apicast''], svc_Ports = [(''proxy'', 8080)]\<rparr>"

definition exSecret :: Secret where
  "exSecret =
     \<lparr>sec_Name = ''portal'', sec_Namespace = ''ns'', sec_ResourceVersion = ''7'',
      sec_OwnerReferences = [],
      sec_Data = [''AdminPortalURL'' \<mapsto> ''https://token@example-admin.3scale.net'']\<rparr>"

definition oldRule :: IngressRule where
  "oldRule =
     \<lparr>ir_Host = ''old.example.com'', ir_ServiceName = ''apicast-example'',
      ir_ServicePort = ''proxy''\<rparr>"

definition newRule :: IngressRule where
  "newRule =
     \<lparr>ir_Host = ''new.example.com'', ir_ServiceName = ''apicast-example'',
      ir_ServicePort = ''proxy''\<rparr>"

definition exIngress :: "IngressRule list \<Rightarrow> Ingress" where
  "exIngress rules =
     \<lparr>ing_Name = ''apicast-example'', ing_Namespace = ''ns'', ing_OwnerReferences = [],
      ing_Rules = rules, ing_TLS = []\<rparr>"


text \<open>The custom resource with a reference to the secret \<open>portal\<close>, and a store that holds both.\<close>

definition exCRportal :: APIcastCR where
  "exCRportal = exCR\<lparr>cr_Spec := exSpec\<lparr>spec_AdminPortalCredentialsRef := Some ''portal''\<rparr>\<rparr>"

definition exWorldPortal :: World where
  "exWorldPortal = (exWorld exCRportal)\<lparr>secrets := [(''ns'', ''portal'') \<mapsto> exSecret]\<rparr>"

text \<open>
  The custom resource with the exposed host \<open>new.example.com\<close>, and a store that holds an
  ingress with the given rules.
\<close>

definition exCRhost :: APIcastCR where
  "exCRhost =
     exCR\<lparr>cr_Spec := exSpec\<lparr>spec_ExposedHost :=
       Some \<lparr>eh_Host = ''new.example.com'', eh_TLS = []\<rparr>\<rparr>\<rparr>"

definition exWorldIngress :: "IngressRule list \<Rightarrow> World" where
  "exWorldIngress rules =
     (exWorld exCRhost)\<lparr>ingresses := [(''ns'', ''apicast-example'') \<mapsto> exIngress rules]\<rparr>"




text \<open>
  The state that a pass for \<open>exCR\<close> with the sample imports leaves behind it in a store
  that held the custom resource only: the deployment and the service are the desired
  ones.
\<close>

definition exConverged :: World where
  "exConverged =
     (exWorld exCR)
       \<lparr>deployments := [(''ns'', ''apicast-example'') \<mapsto>
          \<lparr>dep_Name = ''apicast-example'', dep_Namespace = ''ns'',
           dep_Labels = [''app'' \<mapsto> ''apicast''],
           dep_OwnerReferences =
             [\<lparr>or_APIVersion = ''apps.3scale.net/v1alpha1'', or_Kind = ''APIcast'',
               or_Name = ''example'', or_UID = ''uid-1'', or_Controller = Some True\<rparr>],
           dep_Replicas = Some 1, dep_Annotations = Map.empty,
           dep_ServiceAccountName = ''default'',
           dep_Containers =
             [\<lparr>c_Name = ''apicast'', c_Image = ''quay.io/3scale/apicast:nightly'',
               c_Env = [], c_VolumeMounts = []\<rparr>],
           dep_Volumes = []\<rparr>],
        services := [(''ns'', ''apicast-example'') \<mapsto>
          \<lparr>svc_Name = ''apicast-example'', svc_Namespace = ''ns'',
           svc_OwnerReferences =
             [\<lparr>or_APIVersion = ''apps.3scale.net/v1alpha1'', or_Kind = ''APIcast'',
               or_Name = ''example'', or_UID = ''uid-1'', or_Controller = Some True\<rparr>],
           svc_Selector = [''app'' \<mapsto> ''apicast''],
           svc_Ports = [(''proxy'', 8080), (''management'', 8090)]\<rparr>]\<rparr>"

section \<open>Properties\<close>

lemmas client_defs = record_call_def store_get_def store_create_def store_update_def

subsection \<open>The service driver\<close>

lemma Get_Service_world:
  "snd (Get_Service k w) = w\<lparr>calls := calls w @ [Get KService k]\<rparr>"
  by (simp add: Get_Service_def record_call_def split: option.splits)

lemma Create_Service_frame:
  "Create_Service s w = (r, w') \<Longrightarrow>
     calls w' = calls w @ [Create KService (svc_Namespace s, svc_Name s)] \<and>
     apicasts w' = apicasts w \<and> secrets w' = secrets w \<and> deployments w' = deployments w \<and>
     ingresses w' = ingresses w \<and>
     (services w (svc_Namespace s, svc_Name s) \<noteq> None \<longrightarrow> services w' = services w)"
  by (auto simp: Create_Service_def client_defs Let_def split: option.splits sum.splits)

text \<open>
  Claim C9. When a service is stored under the name of the desired one, the service driver
  leaves every stored object as it is, whatever the desired service holds, and issues no
  update of a service. In every case the driver issues one get and nothing else, with the
  stored objects unchanged, or one get and one create, and then the get has answered
  not-found: a service is written only by that create.
\<close>

theorem reconcileService_never_updates:
  "(services w (svc_Namespace d, svc_Name d) = Some s \<longrightarrow>
      same_objects w (snd (reconcileService d w))
      \<and> (\<forall>k. Update KService k \<notin> set (new_calls w (snd (reconcileService d w)))))
   \<and> (new_calls w (snd (reconcileService d w)) = [Get KService (svc_Namespace d, svc_Name d)]
        \<and> same_objects w (snd (reconcileService d w))
      \<or> new_calls w (snd (reconcileService d w)) =
           [Get KService (svc_Namespace d, svc_Name d),
            Create KService (svc_Namespace d, svc_Name d)]
        \<and> fst (Get_Service (svc_Namespace d, svc_Name d) w) = Inl NotFound)"
proof -
  let ?k = "(svc_Namespace d, svc_Name d)"
  obtain g w1 where g: "Get_Service ?k w = (g, w1)" by (cases "Get_Service ?k w")
  have w1: "w1 = w\<lparr>calls := calls w @ [Get KService ?k]\<rparr>"
    using g Get_Service_world [of ?k w] by simp
  obtain c w2 where c: "Create_Service d w1 = (c, w2)" by (cases "Create_Service d w1")
  note fr = Create_Service_frame [OF c]
  show ?thesis
    using g c fr w1
    by (auto simp: reconcileService_def new_calls_def same_objects_def IsNotFound_def
             split: sum.splits)
qed

theorem reconcileService_never_updates_witness:
  "services (exWorld exCR\<lparr>services := [(''ns'', ''apicast-example'') \<mapsto> exService]\<rparr>)
     (svc_Namespace (exService\<lparr>svc_Ports := []\<rparr>), svc_Name (exService\<lparr>svc_Ports := []\<rparr>))
     = Some exService
   \<and> same_objects (exWorld exCR\<lparr>services := [(''ns'', ''apicast-example'') \<mapsto> exService]\<rparr>)
     (snd (reconcileService (exService\<lparr>svc_Ports := []\<rparr>)
        (exWorld exCR\<lparr>services := [(''ns'', ''apicast-example'') \<mapsto> exService]\<rparr>)))"
proof -
  let ?w = "exWorld exCR\<lparr>services := [(''ns'', ''apicast-example'') \<mapsto> exService]\<rparr>"
  let ?d = "exService\<lparr>svc_Ports := []\<rparr>"
  have h: "services ?w (svc_Namespace ?d, svc_Name ?d) = Some exService"
    by (simp add: exWorld_def exService_def)
  from reconcileService_never_updates [of ?w ?d exService] h show ?thesis by blast
qed

subsection \<open>The stages of a pass\<close>

lemma Update_APIcast_frame:
  "Update_APIcast cr w = (r, w') \<Longrightarrow>
     calls w' = calls w @ [Update KAPIcast (cr_Namespace cr, cr_Name cr)] \<and>
     secrets w' = secrets w \<and> deployments w' = deployments w \<and> services w' = services w \<and>
     ingresses w' = ingresses w \<and>
     (faults w (length (calls w)) = None \<and> apicasts w (cr_Namespace cr, cr_Name cr) \<noteq> None \<longrightarrow>
        r = None \<and> apicasts w' = (apicasts w)((cr_Namespace cr, cr_Name cr) \<mapsto> cr))"
  by (auto simp: Update_APIcast_def client_defs Let_def split: option.splits sum.splits)

text \<open>
  Claim C5. For a custom resource with no replica count, a pass issues exactly one call to
  the store, the update of the custom resource: no secret is got, and no deployment,
  service or ingress is got, created or updated, so these are stored as before. When the
  store accepts the update (it serves the call, and the resource is stored), the pass
  returns the re-queue signal with no error, and the stored resource is the given one with
  the replica count 1.
\<close>

theorem default_fill_requeue:
  "spec_Replicas (cr_Spec cr) = None \<longrightarrow>
     new_calls w (snd (Reconcile D cr w)) = [Update KAPIcast (cr_Namespace cr, cr_Name cr)]
     \<and> secrets (snd (Reconcile D cr w)) = secrets w
     \<and> deployments (snd (Reconcile D cr w)) = deployments w
     \<and> services (snd (Reconcile D cr w)) = services w
     \<and> ingresses (snd (Reconcile D cr w)) = ingresses w
     \<and> (faults w (length (calls w)) = None \<and> apicasts w (cr_Namespace cr, cr_Name cr) \<noteq> None \<longrightarrow>
          fst (Reconcile D cr w) = (\<lparr>Requeue = True\<rparr>, None)
          \<and> apicasts (snd (Reconcile D cr w)) =
              (apicasts w)((cr_Namespace cr, cr_Name cr) \<mapsto>
                 cr\<lparr>cr_Spec := (cr_Spec cr)\<lparr>spec_Replicas := Some 1\<rparr>\<rparr>))"
proof
  assume nil: "spec_Replicas (cr_Spec cr) = None"
  let ?cr1 = "cr\<lparr>cr_Spec := (cr_Spec cr)\<lparr>spec_Replicas := Some 1\<rparr>\<rparr>"
  obtain r w1 where u: "Update_APIcast ?cr1 w = (r, w1)" by (cases "Update_APIcast ?cr1 w")
  have R: "snd (Reconcile D cr w) = w1"
      "r = None \<Longrightarrow> fst (Reconcile D cr w) = (\<lparr>Requeue = True\<rparr>, None)"
    using nil u
    by (simp_all add: Reconcile_def initialize_def applyInitialization_def split: option.splits)
  from Update_APIcast_frame [OF u] R
  show "new_calls w (snd (Reconcile D cr w)) = [Update KAPIcast (cr_Namespace cr, cr_Name cr)]
     \<and> secrets (snd (Reconcile D cr w)) = secrets w
     \<and> deployments (snd (Reconcile D cr w)) = deployments w
     \<and> services (snd (Reconcile D cr w)) = services w
     \<and> ingresses (snd (Reconcile D cr w)) = ingresses w
     \<and> (faults w (length (calls w)) = None \<and> apicasts w (cr_Namespace cr, cr_Name cr) \<noteq> None \<longrightarrow>
          fst (Reconcile D cr w) = (\<lparr>Requeue = True\<rparr>, None)
          \<and> apicasts (snd (Reconcile D cr w)) =
              (apicasts w)((cr_Namespace cr, cr_Name cr) \<mapsto> ?cr1))"
    by (simp add: new_calls_def)
qed

theorem default_fill_requeue_witness:
  "fst (Reconcile exImported (exCR\<lparr>cr_Spec := exSpec\<lparr>spec_Replicas := None\<rparr>\<rparr>)
          (exWorld exCR)) = (\<lparr>Requeue = True\<rparr>, None)
   \<and> new_calls (exWorld exCR)
        (snd (Reconcile exImported (exCR\<lparr>cr_Spec := exSpec\<lparr>spec_Replicas := None\<rparr>\<rparr>)
          (exWorld exCR))) = [Update KAPIcast (''ns'', ''example'')]
   \<and> apicasts (snd (Reconcile exImported (exCR\<lparr>cr_Spec := exSpec\<lparr>spec_Replicas := None\<rparr>\<rparr>)
          (exWorld exCR))) (''ns'', ''example'') = Some exCR"
proof -
  let ?cr = "exCR\<lparr>cr_Spec := exSpec\<lparr>spec_Replicas := None\<rparr>\<rparr>"
  have h: "spec_Replicas (cr_Spec ?cr) = None"
      "faults (exWorld exCR) (length (calls (exWorld exCR))) = None"
      "apicasts (exWorld exCR) (cr_Namespace ?cr, cr_Name ?cr) \<noteq> None"
      "cr_Namespace ?cr = ''ns''" "cr_Name ?cr = ''example''"
      "?cr\<lparr>cr_Spec := (cr_Spec ?cr)\<lparr>spec_Replicas := Some 1\<rparr>\<rparr> = exCR"
    by (simp_all add: exWorld_def exCR_def exSpec_def)
  from default_fill_requeue [of ?cr "exWorld exCR" exImported] h show ?thesis by simp
qed

text \<open>
  Claim C4. For a custom resource whose admin-portal reference is present with an empty
  name, getting the secret fails with \<open>ReferenceIncomplete\<close> and calls the store not at
  all. A pass leaves the state of the store and the list of calls exactly as the
  initialization stage left them: nothing is got, created or updated after it. When the
  replica count is set, so that the initialization has nothing to do, the pass returns
  that error and has called the store not at all.
\<close>

theorem missing_reference_rejected:
  "spec_AdminPortalCredentialsRef (cr_Spec cr) = Some [] \<longrightarrow>
     getAdminPortalCredentialsSecret D cr w =
       (Inl (Err (ReferenceIncomplete ''AdminPortalCredentialsRef'')), w)
     \<and> snd (Reconcile D cr w) = snd (snd (initialize cr w))
     \<and> (spec_Replicas (cr_Spec cr) \<noteq> None \<longrightarrow>
          Reconcile D cr w =
            ((\<lparr>Requeue = False\<rparr>, Some (Err (ReferenceIncomplete ''AdminPortalCredentialsRef''))), w))"
  by (auto simp: Reconcile_def initialize_def applyInitialization_def
        reconcileAdminPortalCredentials_def getAdminPortalCredentialsSecret_def
      split: option.splits prod.splits)

theorem missing_reference_rejected_witness:
  "Reconcile exImported (exCR\<lparr>cr_Spec := exSpec\<lparr>spec_AdminPortalCredentialsRef := Some []\<rparr>\<rparr>)
     (exWorld exCR) =
     ((\<lparr>Requeue = False\<rparr>, Some (Err (ReferenceIncomplete ''AdminPortalCredentialsRef''))),
      exWorld exCR)"
proof -
  let ?cr = "exCR\<lparr>cr_Spec := exSpec\<lparr>spec_AdminPortalCredentialsRef := Some []\<rparr>\<rparr>"
  have h: "spec_AdminPortalCredentialsRef (cr_Spec ?cr) = Some []"
      "spec_Replicas (cr_Spec ?cr) \<noteq> None"
    by (simp_all add: exCR_def exSpec_def)
  from missing_reference_rejected [of ?cr exImported "exWorld exCR"] h show ?thesis by simp
qed

text \<open>
  Claim C6. When the initialization stage reports that it applied a default (flag true, no
  error), the pass returns the re-queue signal with no error in the state that the stage
  left. When it did not and the admin-portal stage reports "changed" with no error, the
  pass returns the re-queue signal with no error in the state which that stage left; and
  the same for the embedded-configuration stage after an admin-portal stage that changed
  nothing. The final state being the one of the reporting stage, no later stage has got,
  created or updated anything. (A stage whose write the store rejects reports the error
  of the store, and the pass returns that error.)
\<close>

theorem changed_means_requeue:
  "(initialize cr w = ((True, None), cr1, w1) \<longrightarrow>
      Reconcile D cr w = ((\<lparr>Requeue = True\<rparr>, None), w1))
   \<and> (initialize cr w = ((False, None), cr1, w1)
        \<and> reconcileAdminPortalCredentials D cr1 w1 = ((s, True, None), w2) \<longrightarrow>
      Reconcile D cr w = ((\<lparr>Requeue = True\<rparr>, None), w2))
   \<and> (initialize cr w = ((False, None), cr1, w1)
        \<and> reconcileAdminPortalCredentials D cr1 w1 = ((s, False, None), w2)
        \<and> reconcileGatewayEmbbededConfig D cr1 w2 = ((s', True, None), w3) \<longrightarrow>
      Reconcile D cr w = ((\<lparr>Requeue = True\<rparr>, None), w3))"
  by (simp add: Reconcile_def)

lemma ex_initialize_portal:
  "initialize exCRportal exWorldPortal = ((False, None), exCRportal, exWorldPortal)"
  by (simp add: initialize_def applyInitialization_def exCRportal_def exCR_def exSpec_def)

lemma ex_reconcileAdminPortalCredentials:
  "reconcileAdminPortalCredentials exImported exCRportal exWorldPortal =
     ((Some (exSecret\<lparr>sec_OwnerReferences :=
                [\<lparr>or_APIVersion = ''apps.3scale.net/v1alpha1'', or_Kind = ''APIcast'',
                  or_Name = ''example'', or_UID = ''uid-1'', or_Controller = Some True\<rparr>]\<rparr>),
       True, None),
      exWorldPortal
        \<lparr>secrets := [(''ns'', ''portal'') \<mapsto>
            exSecret\<lparr>sec_OwnerReferences :=
                [\<lparr>or_APIVersion = ''apps.3scale.net/v1alpha1'', or_Kind = ''APIcast'',
                  or_Name = ''example'', or_UID = ''uid-1'', or_Controller = Some True\<rparr>]\<rparr>],
         calls := [Get KSecret (''ns'', ''portal''), Update KSecret (''ns'', ''portal'')]\<rparr>)"
  by (simp add: reconcileAdminPortalCredentials_def getAdminPortalCredentialsSecret_def
        Get_Secret_def Update_Secret_def client_defs Let_def SecretStringDataFromData_def
        ensureOwnerReference_def setOwnerReference_def exImported_def
        exCRportal_def exCR_def exSpec_def exWorldPortal_def exWorld_def exSecret_def)

theorem changed_means_requeue_witness:
  "fst (Reconcile exImported exCRportal exWorldPortal) = (\<lparr>Requeue = True\<rparr>, None)
   \<and> calls (snd (Reconcile exImported exCRportal exWorldPortal)) =
       [Get KSecret (''ns'', ''portal''), Update KSecret (''ns'', ''portal'')]"
  using changed_means_requeue [of exCRportal exWorldPortal exCRportal exWorldPortal exImported]
    ex_initialize_portal ex_reconcileAdminPortalCredentials
  by simp

subsection \<open>The desired state\<close>


subsection \<open>The nil replica count\<close>

lemma getAdminPortalCredentialsSecret_no_panic:
  "spec_AdminPortalCredentialsRef (cr_Spec cr) \<noteq> None \<Longrightarrow>
     fst (getAdminPortalCredentialsSecret D cr w) \<noteq> Inl (Panic p)"
  by (auto simp: getAdminPortalCredentialsSecret_def split: option.splits prod.splits sum.splits)

lemma getGatewayEmbeddedConfigSecret_no_panic:
  "spec_EmbeddedConfigurationSecretRef (cr_Spec cr) \<noteq> None \<Longrightarrow>
     fst (getGatewayEmbeddedConfigSecret D cr w) \<noteq> Inl (Panic p)"
  by (auto simp: getGatewayEmbeddedConfigSecret_def split: option.splits prod.splits sum.splits)

lemma reconcileAdminPortalCredentials_no_panic:
  "snd (snd (fst (reconcileAdminPortalCredentials D cr w))) \<noteq> Some (Panic p)"
  using getAdminPortalCredentialsSecret_no_panic [of cr D w p]
  by (auto simp: reconcileAdminPortalCredentials_def split: option.splits prod.splits sum.splits)

lemma reconcileGatewayEmbbededConfig_no_panic:
  "snd (snd (fst (reconcileGatewayEmbbededConfig D cr w))) \<noteq> Some (Panic p)"
  using getGatewayEmbeddedConfigSecret_no_panic [of cr D w p]
  by (auto simp: reconcileGatewayEmbbededConfig_def split: option.splits prod.splits sum.splits)

lemma compareDeployment_panic:
  "compareDeployment e d = Inl p \<Longrightarrow> p = IndexOutOfRange"
  by (auto simp: compareDeployment_def Let_def split: list.splits prod.splits if_splits)

lemma reconcileDeployment_no_nil_panic:
  "fst (reconcileDeployment d w) \<noteq> Some (Panic NilPointerDereference)"
  by (auto simp: reconcileDeployment_def split: prod.splits sum.splits option.splits
      dest: compareDeployment_panic)

lemma reconcileService_no_panic:
  "fst (reconcileService d w) \<noteq> Some (Panic p)"
  by (auto simp: reconcileService_def split: prod.splits sum.splits option.splits)

lemma exposedHostIdx_loop_Some:
  "exposedHostIdx_loop (Some h) rules idx acc \<noteq> Inl p"
  by (induction rules arbitrary: idx acc) auto

lemma reconcileIngress_no_panic:
  "spec_ExposedHost (cr_Spec cr) \<noteq> None \<Longrightarrow> fst (reconcileIngress cr d w) \<noteq> Some (Panic p)"
  using exposedHostIdx_loop_Some
  by (auto simp: reconcileIngress_def compareIngress_def Let_def
      split: prod.splits sum.splits option.splits if_splits)


lemma internalAPIcast_Inr:
  "spec_Replicas (cr_Spec cr) \<noteq> None \<Longrightarrow> \<exists>a. internalAPIcast D cr s w = (Inr a, w)"
  by (auto simp: internalAPIcast_def Let_def)

lemma reconcileObjects_no_nil_panic:
  assumes r: "spec_Replicas (cr_Spec cr) \<noteq> None"
  shows "snd (fst (reconcileObjects D cr s w)) \<noteq> Some (Panic NilPointerDereference)"
proof -
  from internalAPIcast_Inr [OF r] obtain a where a: "internalAPIcast D cr s w = (Inr a, w)"
    by blast
  obtain dd w2 where ld: "load_Deployment (apicast_Deployment D a) w = (dd, w2)"
    by (cases "load_Deployment (apicast_Deployment D a) w")
  obtain rd w3 where rd: "reconcileDeployment dd w2 = (rd, w3)"
    by (cases "reconcileDeployment dd w2")
  obtain rs w4 where rs: "reconcileService (apicast_Service D a) w3 = (rs, w4)"
    by (cases "reconcileService (apicast_Service D a) w3")
  obtain ri w5 where ri: "reconcileIngress cr (apicast_Ingress D a) w4 = (ri, w5)"
    by (cases "reconcileIngress cr (apicast_Ingress D a) w4")
  have 1: "rd \<noteq> Some (Panic NilPointerDereference)"
    using reconcileDeployment_no_nil_panic [of dd w2] rd by simp
  have 2: "rs \<noteq> Some (Panic NilPointerDereference)"
    using reconcileService_no_panic [of "apicast_Service D a" w3] rs by simp
  have 3: "spec_ExposedHost (cr_Spec cr) \<noteq> None \<Longrightarrow> ri \<noteq> Some (Panic NilPointerDereference)"
    using reconcileIngress_no_panic [of cr "apicast_Ingress D a" w4] ri by simp
  show ?thesis
    using 1 2 3 by (auto simp: reconcileObjects_def a ld rd rs ri split: option.splits)
qed

lemma Reconcile_no_nil_panic:
  "snd (fst (Reconcile D cr w)) \<noteq> Some (Panic NilPointerDereference)"
proof (cases "spec_Replicas (cr_Spec cr) = None")
  case True
  then show ?thesis
    by (auto simp: Reconcile_def initialize_def applyInitialization_def Update_APIcast_def
        Let_def client_defs split: option.splits prod.splits sum.splits)
next
  case False
  then have i: "initialize cr w = ((False, None), cr, w)"
    by (cases "spec_Replicas (cr_Spec cr)") (simp_all add: initialize_def applyInitialization_def)
  obtain sa ca ea w2 where ra: "reconcileAdminPortalCredentials D cr w = ((sa, ca, ea), w2)"
    by (metis prod.collapse)
  obtain sg cg eg w3 where rg: "reconcileGatewayEmbbededConfig D cr w2 = ((sg, cg, eg), w3)"
    by (metis prod.collapse)
  have 1: "ea \<noteq> Some (Panic NilPointerDereference)"
    using reconcileAdminPortalCredentials_no_panic [of D cr w] ra by simp
  have 2: "eg \<noteq> Some (Panic NilPointerDereference)"
    using reconcileGatewayEmbbededConfig_no_panic [of D cr w2] rg by simp
  show ?thesis
    using 1 2 reconcileObjects_no_nil_panic [OF False]
    by (auto simp: Reconcile_def i ra rg split: option.splits)
qed



lemma no_panic_cases:
  assumes "\<And>p. r \<noteq> Inl (Panic p)"
  shows "(\<exists>e. r = Inl (Err e)) \<or> (\<exists>s. r = Inr s)"
proof (cases r)
  case (Inl f)
  with assms show ?thesis by (cases f) auto
next
  case (Inr s)
  then show ?thesis by simp
qed

lemma APIcastFromCRContents_cases:
  "(\<exists>e. fst (APIcastFromCRContents D cr w) = Inl (Err e))
   \<or> (\<exists>s w1. APIcastFromCRContents D cr w = internalAPIcast D cr s w1)"
proof -
  let ?G = "spec_EmbeddedConfigurationSecretRef (cr_Spec cr) \<noteq> None"
  let ?A = "spec_AdminPortalCredentialsRef (cr_Spec cr) \<noteq> None"
  obtain rg w1 where g: "getGatewayEmbeddedConfigSecret D cr w = (rg, w1)"
    by (cases "getGatewayEmbeddedConfigSecret D cr w")
  define w1' where "w1' = (if ?G then w1 else w)"
  obtain ra w2 where a: "getAdminPortalCredentialsSecret D cr w1' = (ra, w2)"
    by (cases "getAdminPortalCredentialsSecret D cr w1'")
  have pg: "?G \<Longrightarrow> (\<exists>e. rg = Inl (Err e)) \<or> (\<exists>s. rg = Inr s)"
    using getGatewayEmbeddedConfigSecret_no_panic [of cr D w] g
    by (intro no_panic_cases) auto
  have pa: "?A \<Longrightarrow> (\<exists>e. ra = Inl (Err e)) \<or> (\<exists>s. ra = Inr s)"
    using getAdminPortalCredentialsSecret_no_panic [of cr D w1'] a
    by (intro no_panic_cases) auto
  show ?thesis
  proof (cases ?G)
    case G: True
    from pg [OF G] show ?thesis
    proof
      assume "\<exists>e. rg = Inl (Err e)"
      then show ?thesis using G g by (auto simp: APIcastFromCRContents_def)
    next
      assume "\<exists>s. rg = Inr s"
      then obtain sg where sg: "rg = Inr sg" by blast
      show ?thesis
      proof (cases ?A)
        case A: True
        from pa [OF A] show ?thesis
        proof
          assume "\<exists>e. ra = Inl (Err e)"
          then show ?thesis
            using G g sg A a by (auto simp: APIcastFromCRContents_def w1'_def)
        next
          assume "\<exists>s. ra = Inr s"
          then obtain sa where "ra = Inr sa" by blast
          then have "APIcastFromCRContents D cr w =
              internalAPIcast D cr \<lparr>adminPortalCredentialsSecret = Some sa,
                gatewayEmbeddedConfigSecret = Some sg\<rparr> w2"
            using G g sg A a by (auto simp: APIcastFromCRContents_def w1'_def)
          then show ?thesis by blast
        qed
      next
        case A: False
        then have "APIcastFromCRContents D cr w =
              internalAPIcast D cr \<lparr>adminPortalCredentialsSecret = None,
                gatewayEmbeddedConfigSecret = Some sg\<rparr> w1"
          using G g sg by (auto simp: APIcastFromCRContents_def)
        then show ?thesis by blast
      qed
    qed
  next
    case G: False
    show ?thesis
    proof (cases ?A)
      case A: True
      from pa [OF A] show ?thesis
      proof
        assume "\<exists>e. ra = Inl (Err e)"
        then show ?thesis
          using G A a by (auto simp: APIcastFromCRContents_def w1'_def)
      next
        assume "\<exists>s. ra = Inr s"
        then obtain sa where "ra = Inr sa" by blast
        then have "APIcastFromCRContents D cr w =
            internalAPIcast D cr \<lparr>adminPortalCredentialsSecret = Some sa,
              gatewayEmbeddedConfigSecret = None\<rparr> w2"
          using G A a by (auto simp: APIcastFromCRContents_def w1'_def)
        then show ?thesis by blast
      qed
    next
      case A: False
      then have "APIcastFromCRContents D cr w =
            internalAPIcast D cr \<lparr>adminPortalCredentialsSecret = None,
              gatewayEmbeddedConfigSecret = None\<rparr> w"
        using G by (auto simp: APIcastFromCRContents_def)
      then show ?thesis by blast
    qed
  qed
qed

text \<open>
  Claim C10. \<^verbatim>\<open>internalAPIcast\<close> reads the replica count through its pointer with no
  check: on a custom resource with a nil replica count it panics with a nil dereference,
  whatever the secrets. \<^verbatim>\<open>APIcastFromCRContents\<close> does not initialize: on such a
  resource it panics there whenever getting the secrets does not return an error, and
  always when the resource refers to no secret. With a replica count set, the builder
  returns a desired state and \<^verbatim>\<open>APIcastFromCRContents\<close> never panics with a nil
  dereference; and \<^verbatim>\<open>Reconcile\<close> never does, for any custom resource, since the
  initialization stage ends the pass when the count is nil.
\<close>

theorem replicas_dereference:
  "(spec_Replicas (cr_Spec cr) = None \<longrightarrow>
      internalAPIcast D cr s w = (Inl (Panic NilPointerDereference), w)
      \<and> ((\<forall>e. fst (APIcastFromCRContents D cr w) \<noteq> Inl (Err e)) \<longrightarrow>
           fst (APIcastFromCRContents D cr w) = Inl (Panic NilPointerDereference))
      \<and> (spec_EmbeddedConfigurationSecretRef (cr_Spec cr) = None
           \<and> spec_AdminPortalCredentialsRef (cr_Spec cr) = None \<longrightarrow>
           APIcastFromCRContents D cr w = (Inl (Panic NilPointerDereference), w)))
   \<and> (spec_Replicas (cr_Spec cr) \<noteq> None \<longrightarrow>
        (\<exists>a. internalAPIcast D cr s w = (Inr a, w))
        \<and> fst (APIcastFromCRContents D cr w) \<noteq> Inl (Panic NilPointerDereference))
   \<and> snd (fst (Reconcile D cr w)) \<noteq> Some (Panic NilPointerDereference)"
proof (intro conjI impI)
  assume n: "spec_Replicas (cr_Spec cr) = None"
  then show i: "internalAPIcast D cr s w = (Inl (Panic NilPointerDereference), w)"
    by (simp add: internalAPIcast_def Let_def)
  have "internalAPIcast D cr s' w' = (Inl (Panic NilPointerDereference), w')" for s' w'
    using n by (simp add: internalAPIcast_def Let_def)
  then have "\<exists>s w1. APIcastFromCRContents D cr w = internalAPIcast D cr s w1 \<Longrightarrow>
      fst (APIcastFromCRContents D cr w) = Inl (Panic NilPointerDereference)"
    by auto
  with APIcastFromCRContents_cases [of D cr w]
  show "\<forall>e. fst (APIcastFromCRContents D cr w) \<noteq> Inl (Err e) \<Longrightarrow>
      fst (APIcastFromCRContents D cr w) = Inl (Panic NilPointerDereference)"
    by blast
  show "spec_EmbeddedConfigurationSecretRef (cr_Spec cr) = None
      \<and> spec_AdminPortalCredentialsRef (cr_Spec cr) = None \<Longrightarrow>
      APIcastFromCRContents D cr w = (Inl (Panic NilPointerDereference), w)"
    using n by (simp add: APIcastFromCRContents_def internalAPIcast_def Let_def)
next
  assume r: "spec_Replicas (cr_Spec cr) \<noteq> None"
  from internalAPIcast_Inr [OF r] show "\<exists>a. internalAPIcast D cr s w = (Inr a, w)" .
  from APIcastFromCRContents_cases [of D cr w]
  show "fst (APIcastFromCRContents D cr w) \<noteq> Inl (Panic NilPointerDereference)"
  proof
    assume "\<exists>e. fst (APIcastFromCRContents D cr w) = Inl (Err e)"
    then show ?thesis by auto
  next
    assume "\<exists>s w1. APIcastFromCRContents D cr w = internalAPIcast D cr s w1"
    then obtain s' w1 where e: "APIcastFromCRContents D cr w = internalAPIcast D cr s' w1"
      by blast
    from internalAPIcast_Inr [OF r, of D s' w1] e show ?thesis by auto
  qed
next
  show "snd (fst (Reconcile D cr w)) \<noteq> Some (Panic NilPointerDereference)"
    by (rule Reconcile_no_nil_panic)
qed

theorem replicas_dereference_witness:
  "APIcastFromCRContents exImported (exCR\<lparr>cr_Spec := exSpec\<lparr>spec_Replicas := None\<rparr>\<rparr>)
      (exWorld exCR) = (Inl (Panic NilPointerDereference), exWorld exCR)
   \<and> fst (APIcastFromCRContents exImported exCR (exWorld exCR))
        \<noteq> Inl (Panic NilPointerDereference)"
proof -
  let ?cr = "exCR\<lparr>cr_Spec := exSpec\<lparr>spec_Replicas := None\<rparr>\<rparr>"
  let ?s = "\<lparr>adminPortalCredentialsSecret = None, gatewayEmbeddedConfigSecret = None\<rparr>"
  have h: "spec_Replicas (cr_Spec ?cr) = None"
      "spec_EmbeddedConfigurationSecretRef (cr_Spec ?cr) = None"
      "spec_AdminPortalCredentialsRef (cr_Spec ?cr) = None"
    by (simp_all add: exCR_def exSpec_def)
  have h': "spec_Replicas (cr_Spec exCR) \<noteq> None"
    by (simp add: exCR_def exSpec_def)
  from replicas_dereference [of ?cr exImported ?s "exWorld exCR"] h
  have 1: "APIcastFromCRContents exImported ?cr (exWorld exCR)
      = (Inl (Panic NilPointerDereference), exWorld exCR)"
    by blast
  from replicas_dereference [of exCR exImported ?s "exWorld exCR"] h'
  have 2: "fst (APIcastFromCRContents exImported exCR (exWorld exCR))
        \<noteq> Inl (Panic NilPointerDereference)"
    by blast
  from 1 2 show ?thesis by (rule conjI)
qed

subsection \<open>The merge of the environment\<close>











subsection \<open>The ingress driver\<close>

lemma exposedHostIdx_loop_absent:
  "eh_Host h \<notin> ir_Host ` set rules \<Longrightarrow>
     exposedHostIdx_loop (Some h) rules idx acc = Inr acc"
  by (induction rules arbitrary: idx acc) auto

lemma exposedHostIdx_loop_present:
  "eh_Host h \<in> ir_Host ` set rules \<Longrightarrow>
     \<exists>j. exposedHostIdx_loop (Some h) rules idx acc = Inr j \<and> idx \<le> j"
proof (induction rules arbitrary: idx acc)
  case Nil
  then show ?case by simp
next
  case (Cons r rules)
  show ?case
  proof (cases "eh_Host h \<in> ir_Host ` set rules")
    case True
    let ?acc = "if ir_Host r = eh_Host h then idx else acc"
    from Cons.IH [OF True, of "idx + 1" ?acc]
    obtain j where "exposedHostIdx_loop (Some h) rules (idx + 1) ?acc = Inr j" "idx + 1 \<le> j"
      by blast
    then have "exposedHostIdx_loop (Some h) (r # rules) idx acc = Inr j \<and> idx \<le> j" by simp
    then show ?thesis by blast
  next
    case False
    with Cons.prems have "ir_Host r = eh_Host h" by auto
    with exposedHostIdx_loop_absent [OF False] show ?thesis by simp
  qed
qed

lemma compareIngress_eq:
  assumes "spec_ExposedHost (cr_Spec cr) = Some h"
  shows "compareIngress cr e d =
     Inr (e\<lparr>ing_Rules := (if eh_Host h \<in> ir_Host ` set (ing_Rules e) then ing_Rules e
                            else ing_Rules d),
           ing_TLS := ing_TLS d\<rparr>,
          eh_Host h \<notin> ir_Host ` set (ing_Rules e) \<or> ing_TLS e \<noteq> ing_TLS d)"
proof (cases "eh_Host h \<in> ir_Host ` set (ing_Rules e)")
  case True
  from exposedHostIdx_loop_present [OF True, of 0 "- 1"]
  obtain j where "exposedHostIdx_loop (Some h) (ing_Rules e) 0 (- 1) = Inr j" "0 \<le> j" by blast
  with True assms show ?thesis by (auto simp: compareIngress_def)
next
  case False
  from exposedHostIdx_loop_absent [OF False, of 0 "- 1"] False assms
  show ?thesis by (auto simp: compareIngress_def)
qed

text \<open>
  Claim C3, as amended. Let the custom resource expose the host \<open>H2\<close>, let an ingress be
  stored under the name of the desired one, and let the store serve the calls. When the
  stored ingress has a rule for \<open>H2\<close>, reconciling leaves its whole rule set as it is (the
  rule for \<open>H2\<close> and the rules for other hosts alike). When it has none, reconciling
  replaces its whole rule set by the rules of the desired ingress: a rule for another host
  \<open>H1\<close> is kept only if the desired ingress carries it too. In both cases the TLS block
  becomes the desired one and the other fields of the stored ingress stay.
\<close>

theorem reconcileIngress_rules:
  "spec_ExposedHost (cr_Spec cr) = Some h
   \<and> ingresses w (ing_Namespace d, ing_Name d) = Some e
   \<and> ing_Namespace e = ing_Namespace d \<and> ing_Name e = ing_Name d
   \<and> faults w (length (calls w)) = None \<and> faults w (Suc (length (calls w))) = None
   \<longrightarrow>
     fst (reconcileIngress cr d w) = None
     \<and> ingresses (snd (reconcileIngress cr d w)) =
         (ingresses w)((ing_Namespace d, ing_Name d) \<mapsto>
            e\<lparr>ing_Rules := (if eh_Host h \<in> ir_Host ` set (ing_Rules e) then ing_Rules e
                             else ing_Rules d),
              ing_TLS := ing_TLS d\<rparr>)"
proof
  assume a: "spec_ExposedHost (cr_Spec cr) = Some h
   \<and> ingresses w (ing_Namespace d, ing_Name d) = Some e
   \<and> ing_Namespace e = ing_Namespace d \<and> ing_Name e = ing_Name d
   \<and> faults w (length (calls w)) = None \<and> faults w (Suc (length (calls w))) = None"
  let ?k = "(ing_Namespace d, ing_Name d)"
  let ?w1 = "w\<lparr>calls := calls w @ [Get KIngress ?k]\<rparr>"
  have g: "Get_Ingress ?k w = (Inr e, ?w1)"
    using a by (simp add: Get_Ingress_def client_defs)
  from a have hst: "spec_ExposedHost (cr_Spec cr) = Some h" by simp
  note c = compareIngress_eq [OF hst, of e d]
  show "fst (reconcileIngress cr d w) = None
     \<and> ingresses (snd (reconcileIngress cr d w)) =
         (ingresses w)(?k \<mapsto>
            e\<lparr>ing_Rules := (if eh_Host h \<in> ir_Host ` set (ing_Rules e) then ing_Rules e
                             else ing_Rules d),
              ing_TLS := ing_TLS d\<rparr>)"
  proof (cases "eh_Host h \<notin> ir_Host ` set (ing_Rules e) \<or> ing_TLS e \<noteq> ing_TLS d")
    case True
    with a g c show ?thesis
      by (simp add: reconcileIngress_def Update_Ingress_def client_defs Let_def)
  next
    case False
    then have t: "ing_TLS d = ing_TLS e" and p: "eh_Host h \<in> ir_Host ` set (ing_Rules e)"
      by simp_all
    have "e\<lparr>ing_Rules := ing_Rules e, ing_TLS := ing_TLS e\<rparr> = e" by simp
    with p t have "e\<lparr>ing_Rules := (if eh_Host h \<in> ir_Host ` set (ing_Rules e)
        then ing_Rules e else ing_Rules d), ing_TLS := ing_TLS d\<rparr> = e"
      by (simp only: if_True)
    moreover have "(ingresses w)(?k \<mapsto> e) = ingresses w" using a by (auto simp: fun_upd_idem)
    moreover have "reconcileIngress cr d w = (None, ?w1)"
      using False g c by (simp add: reconcileIngress_def)
    ultimately show ?thesis by simp
  qed
qed


theorem reconcileIngress_rules_witness:
  "ingresses (snd (reconcileIngress exCRhost (exIngress [newRule]) (exWorldIngress [oldRule, newRule])))
      (''ns'', ''apicast-example'') = Some (exIngress [oldRule, newRule])
   \<and> ingresses (snd (reconcileIngress exCRhost (exIngress [newRule]) (exWorldIngress [])))
      (''ns'', ''apicast-example'') = Some (exIngress [newRule])"
proof -
  let ?h = "\<lparr>eh_Host = ''new.example.com'', eh_TLS = []\<rparr>"
  let ?d = "exIngress [newRule]"
  have h: "spec_ExposedHost (cr_Spec exCRhost) = Some ?h
     \<and> ingresses (exWorldIngress rules) (ing_Namespace ?d, ing_Name ?d) = Some (exIngress rules)
     \<and> ing_Namespace (exIngress rules) = ing_Namespace ?d
     \<and> ing_Name (exIngress rules) = ing_Name ?d
     \<and> faults (exWorldIngress rules) (length (calls (exWorldIngress rules))) = None
     \<and> faults (exWorldIngress rules) (Suc (length (calls (exWorldIngress rules)))) = None"
    for rules
    by (simp add: exCRhost_def exCR_def exSpec_def exWorldIngress_def exWorld_def exIngress_def)
  have e1: "exIngress [oldRule, newRule]
      \<lparr>ing_Rules := (if eh_Host ?h \<in> ir_Host ` set (ing_Rules (exIngress [oldRule, newRule]))
                      then ing_Rules (exIngress [oldRule, newRule]) else ing_Rules ?d),
       ing_TLS := ing_TLS ?d\<rparr> = exIngress [oldRule, newRule]"
    by (simp add: exIngress_def newRule_def oldRule_def)
  have e2: "exIngress []
      \<lparr>ing_Rules := (if eh_Host ?h \<in> ir_Host ` set (ing_Rules (exIngress []))
                      then ing_Rules (exIngress []) else ing_Rules ?d),
       ing_TLS := ing_TLS ?d\<rparr> = exIngress [newRule]"
    by (simp add: exIngress_def newRule_def oldRule_def)
  have k: "(ing_Namespace ?d, ing_Name ?d) = (''ns'', ''apicast-example'')"
    by (simp add: exIngress_def)
  from reconcileIngress_rules [of exCRhost ?h "exWorldIngress [oldRule, newRule]" ?d
      "exIngress [oldRule, newRule]"] h [of "[oldRule, newRule]"]
  have 1: "ingresses (snd (reconcileIngress exCRhost ?d (exWorldIngress [oldRule, newRule])))
      (''ns'', ''apicast-example'') = Some (exIngress [oldRule, newRule])"
    unfolding e1 k by simp
  from reconcileIngress_rules [of exCRhost ?h "exWorldIngress []" ?d "exIngress []"] h [of "[]"]
  have 2: "ingresses (snd (reconcileIngress exCRhost ?d (exWorldIngress [])))
      (''ns'', ''apicast-example'') = Some (exIngress [newRule])"
    unfolding e2 k by simp
  from 1 2 show ?thesis by (rule conjI)
qed

text \<open>
  Claim C3 as stated fails: with a rule for \<open>old.example.com\<close> stored and the desired
  rule for the exposed host \<open>new.example.com\<close>, the driver updates the ingress to the
  desired rule alone; the rule for \<open>old.example.com\<close> is gone.
\<close>

theorem ingress_rules_replaced_counterexample:
  "ingresses (exWorldIngress [oldRule]) (''ns'', ''apicast-example'') = Some (exIngress [oldRule])
   \<and> reconcileIngress exCRhost (exIngress [newRule]) (exWorldIngress [oldRule]) =
       (None, (exWorldIngress [oldRule])
          \<lparr>ingresses := [(''ns'', ''apicast-example'') \<mapsto> exIngress [newRule]],
           calls := [Get KIngress (''ns'', ''apicast-example''),
                     Update KIngress (''ns'', ''apicast-example'')]\<rparr>)
   \<and> oldRule \<notin> set (ing_Rules (exIngress [newRule]))"
  by (simp add: reconcileIngress_def compareIngress_def Get_Ingress_def Update_Ingress_def
      client_defs Let_def exCRhost_def exCR_def exSpec_def exWorldIngress_def exWorld_def
      exIngress_def newRule_def oldRule_def)

subsection \<open>The deployment driver\<close>

lemma Get_Deployment_calls:
  "Get_Deployment k w = (r, w1) \<Longrightarrow> calls w1 = calls w @ [Get KDeployment k]"
  by (auto simp: Get_Deployment_def load_Deployment_def new_int32_def client_defs
      split: option.splits sum.splits prod.splits)

lemma Update_Deployment_calls:
  "Update_Deployment d w = (r, w1) \<Longrightarrow>
     calls w1 = calls w @ [Update KDeployment (dep_Namespace d, dep_Name d)]"
  by (auto simp: Update_Deployment_def client_defs Let_def
      split: option.splits sum.splits prod.splits)

lemma compareDeployment_changed:
  assumes "dep_Containers e \<noteq> []" "dep_Containers d \<noteq> []"
  shows "\<exists>e1. compareDeployment e d =
            Inr (e1, dep_Replicas e \<noteq> dep_Replicas d \<or> fields_differ e d)
          \<and> dep_Namespace e1 = dep_Namespace e \<and> dep_Name e1 = dep_Name e"
proof -
  from assms obtain e0 es d0 ds where c: "dep_Containers e = e0 # es" "dep_Containers d = d0 # ds"
    by (metis list.exhaust)
  obtain env u where r: "ReconcileEnvVar (c_Env e0) (c_Env d0) = (env, u)"
    by (cases "ReconcileEnvVar (c_Env e0) (c_Env d0)")
  show ?thesis
    by (auto simp: compareDeployment_def fields_differ_def c r Let_def)
qed

lemma upsertEnvVar_unchanged:
  "\<not> snd (upsertEnvVar d es) \<Longrightarrow> fst (upsertEnvVar d es) = es"
  by (induction es) (auto split: prod.splits if_splits)

lemma upsertEnvVar_changed_iff:
  "distinct (map ev_Name es) \<Longrightarrow> snd (upsertEnvVar d es) \<longleftrightarrow> d \<notin> set es"
  by (induction es) (auto split: prod.splits)

lemma ReconcileEnvVar_changed_iff:
  "distinct (map ev_Name existing) \<Longrightarrow>
     snd (ReconcileEnvVar existing desired) \<longleftrightarrow> \<not> set desired \<subseteq> set existing"
proof (induction desired arbitrary: existing)
  case Nil
  then show ?case by simp
next
  case (Cons d ds)
  obtain e1 c1 where u: "upsertEnvVar d existing = (e1, c1)" by (cases "upsertEnvVar d existing")
  obtain e2 c2 where r: "ReconcileEnvVar e1 ds = (e2, c2)" by (cases "ReconcileEnvVar e1 ds")
  from upsertEnvVar_changed_iff [OF Cons.prems, of d] u have c1: "c1 \<longleftrightarrow> d \<notin> set existing"
    by simp
  show ?case
  proof (cases c1)
    case True
    with c1 u r show ?thesis by auto
  next
    case False
    with upsertEnvVar_unchanged [of d existing] u have "e1 = existing" by simp
    with Cons.IH [OF Cons.prems] r have "c2 \<longleftrightarrow> \<not> set ds \<subseteq> set existing" by simp
    with False c1 u r show ?thesis by auto
  qed
qed

lemma reconcileDeployment_always_updates_calls:
  assumes stored: "deployments w (dep_Namespace d, dep_Name d) = Some sd"
    and served: "faults w (length (calls w)) = None"
    and counts: "dep_Replicas sd = Some v" "dep_Replicas d = Some a" "a < next_addr w"
    and containers: "dep_Containers sd \<noteq> []" "dep_Containers d \<noteq> []"
  shows "calls (snd (reconcileDeployment d w)) =
           calls w @ [Get KDeployment (dep_Namespace d, dep_Name d),
                      Update KDeployment (dep_Namespace sd, dep_Name sd)]"
proof -
  let ?k = "(dep_Namespace d, dep_Name d)"
  let ?e = "with_Replicas (Some (next_addr w)) sd :: addr Deployment"
  obtain w1 where g: "Get_Deployment ?k w = (Inr ?e, w1)"
    using stored served counts(1)
    by (simp add: Get_Deployment_def load_Deployment_def new_int32_def client_defs)
  have e: "dep_Containers ?e \<noteq> []" "dep_Replicas ?e = Some (next_addr w)"
      "dep_Namespace ?e = dep_Namespace sd" "dep_Name ?e = dep_Name sd"
    using containers by (simp_all add: with_Replicas_def)
  from compareDeployment_changed [OF e(1) containers(2)] e counts
  obtain e1 where c: "compareDeployment ?e d = Inr (e1, True)"
    and n: "dep_Namespace e1 = dep_Namespace sd" "dep_Name e1 = dep_Name sd"
    by auto
  obtain r w2 where u: "Update_Deployment e1 w1 = (r, w2)" by (cases "Update_Deployment e1 w1")
  have "snd (reconcileDeployment d w) = w2"
    using g c u by (simp add: reconcileDeployment_def)
  with Get_Deployment_calls [OF g] Update_Deployment_calls [OF u] n
  show ?thesis by simp
qed

lemma reconcileDeployment_always_updates:
  assumes "deployments w (dep_Namespace d, dep_Name d) = Some sd"
    and "faults w (length (calls w)) = None"
    and "dep_Replicas sd = Some v" "dep_Replicas d = Some a" "a < next_addr w"
    and "dep_Containers sd \<noteq> []" "dep_Containers d \<noteq> []"
  shows "new_calls w (snd (reconcileDeployment d w)) =
           [Get KDeployment (dep_Namespace d, dep_Name d),
            Update KDeployment (dep_Namespace sd, dep_Name sd)]"
  using reconcileDeployment_always_updates_calls [OF assms] by (simp add: new_calls_def)




subsection \<open>Two passes in succession\<close>

lemmas reconcile_defs =
  Reconcile_def reconcileObjects_def initialize_def applyInitialization_def
  reconcileAdminPortalCredentials_def reconcileGatewayEmbbededConfig_def
  internalAPIcast_def UserProvidedSecretResourceVersionAnnotations_def asOwner_def
  reconcileDeployment_def compareDeployment_def reconcileService_def IsNotFound_def
  Get_Deployment_def Create_Deployment_def Update_Deployment_def Get_Service_def
  Create_Service_def load_Deployment_def wire_Deployment_def with_Replicas_def new_int32_def
  record_call_def store_get_def store_create_def store_update_def Let_def

lemma ex_first_pass:
  "fst (Reconcile exImported exCR (exWorld exCR)) = (\<lparr>Requeue = False\<rparr>, None)
   \<and> calls (snd (Reconcile exImported exCR (exWorld exCR))) =
       [Get KDeployment (''ns'', ''apicast-example''), Create KDeployment (''ns'', ''apicast-example''),
        Get KService (''ns'', ''apicast-example''), Create KService (''ns'', ''apicast-example'')]
   \<and> same_objects exConverged (snd (Reconcile exImported exCR (exWorld exCR)))"
  by (simp add: reconcile_defs same_objects_def exConverged_def exImported_def exCR_def exSpec_def exWorld_def)

lemma reconcileService_calls_grow:
  "\<exists>cs. calls (snd (reconcileService d w)) = calls w @ cs"
proof -
  let ?k = "(svc_Namespace d, svc_Name d)"
  obtain g w1 where g: "Get_Service ?k w = (g, w1)" by (cases "Get_Service ?k w")
  have w1: "calls w1 = calls w @ [Get KService ?k]"
    using g Get_Service_world [of ?k w] by simp
  obtain c w2 where c: "Create_Service d w1 = (c, w2)" by (cases "Create_Service d w1")
  from Create_Service_frame [OF c] have w2: "calls w2 = calls w1 @ [Create KService ?k]" by simp
  show ?thesis
    using g c w1 w2 by (auto simp: reconcileService_def split: sum.splits)
qed

lemma Get_Ingress_calls:
  "Get_Ingress k w = (r, w1) \<Longrightarrow> calls w1 = calls w @ [Get KIngress k]"
  by (auto simp: Get_Ingress_def client_defs split: option.splits)

lemma Create_Ingress_calls:
  "Create_Ingress i w = (r, w1) \<Longrightarrow>
     calls w1 = calls w @ [Create KIngress (ing_Namespace i, ing_Name i)]"
  by (auto simp: Create_Ingress_def client_defs Let_def split: option.splits sum.splits)

lemma Update_Ingress_calls:
  "Update_Ingress i w = (r, w1) \<Longrightarrow>
     calls w1 = calls w @ [Update KIngress (ing_Namespace i, ing_Name i)]"
  by (auto simp: Update_Ingress_def client_defs Let_def split: option.splits sum.splits)

lemma reconcileIngress_calls_grow:
  "\<exists>cs. calls (snd (reconcileIngress cr d w)) = calls w @ cs"
proof -
  let ?k = "(ing_Namespace d, ing_Name d)"
  obtain g w1 where g: "Get_Ingress ?k w = (g, w1)" by (cases "Get_Ingress ?k w")
  note gc = Get_Ingress_calls [OF g]
  show ?thesis
  proof (cases g)
    case (Inl err)
    obtain c w2 where c: "Create_Ingress d w1 = (c, w2)" by (cases "Create_Ingress d w1")
    from Create_Ingress_calls [OF c] gc Inl g c show ?thesis
      by (simp add: reconcileIngress_def)
  next
    case (Inr e)
    show ?thesis
    proof (cases "compareIngress cr e d")
      case (Inl p)
      with Inr g gc show ?thesis by (simp add: reconcileIngress_def)
    next
      case cmp: (Inr eu)
      obtain e1 u where eu: "eu = (e1, u)" by (cases eu)
      obtain r w2 where up: "Update_Ingress e1 w1 = (r, w2)" by (cases "Update_Ingress e1 w1")
      from Update_Ingress_calls [OF up] gc Inr g cmp eu up show ?thesis
        by (cases u; cases r) (simp_all add: reconcileIngress_def)
    qed
  qed
qed


lemma load_Deployment_frame:
  "load_Deployment sd w = (d, w1) \<Longrightarrow>
     calls w1 = calls w \<and> faults w1 = faults w \<and> deployments w1 = deployments w \<and>
     dep_Namespace d = dep_Namespace sd \<and> dep_Name d = dep_Name sd \<and>
     dep_Containers d = dep_Containers sd \<and>
     (dep_Replicas sd \<noteq> None \<longrightarrow> (\<exists>a. dep_Replicas d = Some a \<and> a < next_addr w1))"
  by (cases "dep_Replicas sd")
     (auto simp: load_Deployment_def new_int32_def with_Replicas_def)

lemma Reconcile_always_updates_deployment:
  assumes cr: "spec_Replicas (cr_Spec cr) \<noteq> None"
      "spec_AdminPortalCredentialsRef (cr_Spec cr) = None"
      "spec_EmbeddedConfigurationSecretRef (cr_Spec cr) = None"
    and a: "fst (internalAPIcast D cr
              \<lparr>adminPortalCredentialsSecret = None, gatewayEmbeddedConfigSecret = None\<rparr> w) = Inr a"
    and desired: "dep_Replicas (apicast_Deployment D a) \<noteq> None"
      "dep_Containers (apicast_Deployment D a) \<noteq> []"
    and stored: "deployments w (dep_Namespace (apicast_Deployment D a),
                                dep_Name (apicast_Deployment D a)) = Some sd"
      "dep_Replicas sd = Some v" "dep_Containers sd \<noteq> []"
    and served: "faults w (length (calls w)) = None"
  shows "Update KDeployment (dep_Namespace sd, dep_Name sd)
           \<in> set (new_calls w (snd (Reconcile D cr w)))"
proof -
  let ?s = "\<lparr>adminPortalCredentialsSecret = None, gatewayEmbeddedConfigSecret = None\<rparr>"
  let ?dd = "apicast_Deployment D a"
  let ?U = "Update KDeployment (dep_Namespace sd, dep_Name sd)"
  have i: "initialize cr w = ((False, None), cr, w)"
    using cr(1)
    by (cases "spec_Replicas (cr_Spec cr)") (simp_all add: initialize_def applyInitialization_def)
  have s1: "reconcileAdminPortalCredentials D cr w = ((None, False, None), w)"
    using cr(2) by (simp add: reconcileAdminPortalCredentials_def)
  have s2: "reconcileGatewayEmbbededConfig D cr w = ((None, False, None), w)"
    using cr(3) by (simp add: reconcileGatewayEmbbededConfig_def)
  have R: "Reconcile D cr w = reconcileObjects D cr ?s w"
    by (simp add: Reconcile_def i s1 s2)
  from internalAPIcast_Inr [OF cr(1), of D ?s w] a
  have ia: "internalAPIcast D cr ?s w = (Inr a, w)"
    by auto
  obtain d w2 where ld: "load_Deployment ?dd w = (d, w2)" by (cases "load_Deployment ?dd w")
  note lf = load_Deployment_frame [OF ld]
  from lf desired(1) obtain p where p: "dep_Replicas d = Some p" "p < next_addr w2" by auto
  have k: "dep_Namespace d = dep_Namespace ?dd" "dep_Name d = dep_Name ?dd" using lf by simp_all
  have w2: "calls w2 = calls w" using lf by simp
  obtain rd w3 where rd: "reconcileDeployment d w2 = (rd, w3)" by (cases "reconcileDeployment d w2")
  have "calls (snd (reconcileDeployment d w2)) =
           calls w2 @ [Get KDeployment (dep_Namespace d, dep_Name d), ?U]"
  proof (rule reconcileDeployment_always_updates_calls [of w2 d sd v p])
    show "deployments w2 (dep_Namespace d, dep_Name d) = Some sd" using lf k stored(1) by simp
    show "faults w2 (length (calls w2)) = None" using lf served by simp
    show "dep_Replicas sd = Some v" by (rule stored(2))
    show "dep_Replicas d = Some p" by (rule p(1))
    show "p < next_addr w2" by (rule p(2))
    show "dep_Containers sd \<noteq> []" by (rule stored(3))
    show "dep_Containers d \<noteq> []" using lf desired(2) by simp
  qed
  with rd w2 have c3: "calls w3 = calls w @ [Get KDeployment (dep_Namespace d, dep_Name d), ?U]"
    by simp
  obtain rs w4 where rs: "reconcileService (apicast_Service D a) w3 = (rs, w4)"
    by (cases "reconcileService (apicast_Service D a) w3")
  from reconcileService_calls_grow [of "apicast_Service D a" w3] rs
  obtain cs4 where c4: "calls w4 = calls w3 @ cs4" by auto
  obtain ri w5 where ri: "reconcileIngress cr (apicast_Ingress D a) w4 = (ri, w5)"
    by (cases "reconcileIngress cr (apicast_Ingress D a) w4")
  from reconcileIngress_calls_grow [of cr "apicast_Ingress D a" w4] ri
  obtain cs5 where c5: "calls w5 = calls w4 @ cs5" by auto
  have fin: "snd (reconcileObjects D cr ?s w) = w3 \<or> snd (reconcileObjects D cr ?s w) = w4
      \<or> snd (reconcileObjects D cr ?s w) = w5"
    by (simp add: reconcileObjects_def ia ld rd rs ri split: option.splits)
  have "?U \<in> set (new_calls w w3)" "?U \<in> set (new_calls w w4)" "?U \<in> set (new_calls w w5)"
    using c3 c4 c5 by (simp_all add: new_calls_def)
  with fin R show ?thesis by auto
qed

text \<open>
  Claim C1 does not hold of the code. In the state \<open>exConverged\<close>, which is what a first
  pass leaves (\<open>ex_first_pass\<close>) and in which the deployment and the service equal the
  desired ones, a second pass for the same custom resource returns no error, issues an
  update of the deployment between the two gets, and stores the same objects again. By
  \<open>Reconcile_always_updates_deployment\<close> a pass does so for every custom resource
  (here: one without secrets) and every stored deployment, whenever the desired and the
  stored deployment carry a replica count: the count of the desired deployment and the
  one just read from the store are two cells, and the source compares their addresses.
\<close>

theorem second_pass_updates_deployment:
  "fst (Reconcile exImported exCR exConverged) = (\<lparr>Requeue = False\<rparr>, None)
   \<and> calls (snd (Reconcile exImported exCR exConverged)) =
       [Get KDeployment (''ns'', ''apicast-example''), Update KDeployment (''ns'', ''apicast-example''),
        Get KService (''ns'', ''apicast-example'')]
   \<and> same_objects exConverged (snd (Reconcile exImported exCR exConverged))"
  by (simp add: reconcile_defs same_objects_def exConverged_def exImported_def exCR_def exSpec_def exWorld_def)

end
